theory Spec2Isabelle
  imports Main "HOL-Library.Sublist"
begin

section \<open>Python values, exceptions and outcomes\<close>

text \<open>
  The values that travel through \<^verbatim>\<open>stackdriver_logging.py\<close>: command line values
  (strings, integers, booleans, \<^verbatim>\<open>None\<close>) stored in the parameter dict and formatted
  with \<^verbatim>\<open>%s\<close>.
\<close>

datatype pyval = PNone | PBool bool | PInt int | PStr string

text \<open>Python's truth test, as used by \<^verbatim>\<open>if x\<close> and \<^verbatim>\<open>a if x else b\<close>.\<close>

fun truthy :: "pyval \<Rightarrow> bool" where
  "truthy PNone = False"
| "truthy (PBool b) = b"
| "truthy (PInt i) = (i \<noteq> 0)"
| "truthy (PStr s) = (s \<noteq> [])"

text \<open>\<^verbatim>\<open>if stacktrace:\<close> on the optional string argument (default \<^verbatim>\<open>None\<close>).\<close>

fun truthy_opt :: "string option \<Rightarrow> bool" where
  "truthy_opt None = False"
| "truthy_opt (Some t) = (t \<noteq> [])"

fun str_nat :: "nat \<Rightarrow> string" where
  "str_nat n =
     (if n < 10 then [''0123456789'' ! n]
      else str_nat (n div 10) @ [''0123456789'' ! (n mod 10)])"

declare str_nat.simps [simp del]

definition str_int :: "int \<Rightarrow> string" where
  "str_int i = (if i < 0 then ''-'' @ str_nat (nat (- i)) else str_nat (nat i))"

text \<open>What \<^verbatim>\<open>'%s' % v\<close> inserts: \<^verbatim>\<open>str(v)\<close>.\<close>

fun py_str :: "pyval \<Rightarrow> string" where
  "py_str PNone = ''None''"
| "py_str (PBool b) = (if b then ''True'' else ''False'')"
| "py_str (PInt i) = str_int i"
| "py_str (PStr s) = s"

text \<open>
  An exception is its class name (\<^verbatim>\<open>e.__class__.__name__\<close>), its \<^verbatim>\<open>e.message\<close> and
  what the clause \<^verbatim>\<open>except (KeyboardInterrupt, common.ExpectedException)\<close> tests:
  whether it is an instance of one of the two classes (\<open>Other\<close> when of neither).
\<close>

datatype category = KeyboardInterrupt | ExpectedException | Other

datatype exn = Exn (class_name: string) (category: category) (message: string)

text \<open>
  Exceptions the interpreter raises itself. The wording of a \<^verbatim>\<open>TypeError\<close> from a
  call whose arguments do not fit is the interpreter's; the text kept here only names the
  callee.
\<close>

definition TypeError :: "string \<Rightarrow> exn" where
  "TypeError callee = Exn ''TypeError'' Other (callee @ ''(): arguments do not match'')"

definition KeyError :: "string \<Rightarrow> exn" where
  "KeyError k = Exn ''KeyError'' Other k"

text \<open>
  How a call of the wrapped callable ends: it returns a value, an exception propagates to
  the caller, or \<^verbatim>\<open>sys.exit(n)\<close> ends the process with status \<open>n\<close>.
\<close>

datatype outcome = Return pyval | Raise exn | Exit int

section \<open>The parameter dict and the request\<close>

type_synonym params = "string \<rightharpoonup> pyval"

text \<open>Keyword arguments \<^verbatim>\<open>**kwargs\<close>: a dict, looked up with \<open>map_of\<close>.\<close>

type_synonym kwargs = "(string \<times> pyval) list"

record entry =
  jsonPayload :: params
  severity :: string

record envelope =
  logName :: string
  resource_type :: string
  resource_labels :: "(string \<times> string) list"
  entries :: "entry list"

record request =
  uri :: string
  http_method :: string
  body :: envelope

text \<open>
  What the module takes from its surroundings. \<open>get_version\<close>, \<open>LOG_FILE_PATH\<close> and the
  class \<^verbatim>\<open>ExpectedException\<close> belong to the packages \<^verbatim>\<open>common\<close> and
  \<^verbatim>\<open>local_logging\<close>; \<open>environ_USER\<close> is \<^verbatim>\<open>os.environ.get('USER')\<close>; \<open>SESSION_ID\<close> is
  the module constant computed at import. \<open>authorize n\<close> is the exception, if any, that
  loading the key file and authorising the HTTP client raise in the \<open>n\<close>-th call of
  \<open>send_log\<close>, \<open>http_request n\<close> the one that the POST of that call raises.
  \<open>traceback_rest e\<close> is the text \<^verbatim>\<open>traceback.format_exc()\<close> prints below its header
  line while \<open>e\<close> is handled.
\<close>

record env =
  environ_USER :: "string option"
  get_version :: string
  SESSION_ID :: string
  LOG_FILE_PATH :: string
  authorize :: "nat \<Rightarrow> exn option"
  http_request :: "nat \<Rightarrow> exn option"
  traceback_rest :: "exn \<Rightarrow> string"

text \<open>
  The effects of the decorator: \<open>calls\<close> counts the calls of \<open>send_log\<close> begun, \<open>posted\<close>
  lists the requests whose POST returned, \<open>invocations\<close> the calls of the wrapped
  function with their arguments, \<open>logged\<close> the lines given to \<^verbatim>\<open>logger.info\<close> and
  \<open>stdout\<close> the lines printed.
\<close>

record state =
  calls :: nat
  posted :: "request list"
  invocations :: "(pyval list \<times> kwargs) list"
  logged :: "string list"
  stdout :: "string list"

section \<open>\<^verbatim>\<open>send_log\<close>\<close>

definition get_session_id :: "env \<Rightarrow> string" where
  "get_session_id env = SESSION_ID env"

definition getitem :: "params \<Rightarrow> string \<Rightarrow> exn + pyval" where
  "getitem d k = (case d k of None \<Rightarrow> Inl (KeyError k) | Some v \<Rightarrow> Inr v)"

text \<open>Lines 56 to 60: the word chosen from the \<^verbatim>\<open>success\<close> entry.\<close>

definition prefix_of :: "params \<Rightarrow> string" where
  "prefix_of p =
     (case p ''success'' of
        Some v \<Rightarrow> (if truthy v then ''successfully finished'' else ''unsuccessfully finished'')
      | None \<Rightarrow> ''started'')"

text \<open>
  Lines 61 to 66: the format string applied to the tuple; the entries are read in the
  tuple's order and the first missing key raises \<^verbatim>\<open>KeyError\<close>.
\<close>

definition format_message :: "params \<Rightarrow> string \<Rightarrow> exn + string" where
  "format_message p pre =
     (case getitem p ''user'' of Inl e \<Rightarrow> Inl e | Inr user \<Rightarrow>
     (case getitem p ''command'' of Inl e \<Rightarrow> Inl e | Inr command \<Rightarrow>
     (case getitem p ''testcaseId'' of Inl e \<Rightarrow> Inl e | Inr testcaseId \<Rightarrow>
     (case getitem p ''buildType'' of Inl e \<Rightarrow> Inl e | Inr buildType \<Rightarrow>
     (case getitem p ''current'' of Inl e \<Rightarrow> Inl e | Inr current \<Rightarrow>
     (case getitem p ''disableGoma'' of Inl e \<Rightarrow> Inl e | Inr disableGoma \<Rightarrow>
        Inr (py_str user @ '' '' @ pre @ '' running '' @ py_str command
             @ '' with testcase='' @ py_str testcaseId
             @ '', build_type='' @ py_str buildType
             @ '', current='' @ py_str current
             @ '', and goma='' @ (if truthy disableGoma then ''disabled'' else ''enabled''))))))))"

text \<open>Lines 67 and 68.\<close>

definition append_stacktrace :: "string \<Rightarrow> string option \<Rightarrow> string" where
  "append_stacktrace msg stacktrace =
     (case stacktrace of
        Some t \<Rightarrow> (if t \<noteq> [] then msg @ [CHR 0x0A] @ t else msg)
      | None \<Rightarrow> msg)"

text \<open>\<^verbatim>\<open>os.environ.get('USER')\<close>: the name, or \<^verbatim>\<open>None\<close> when the variable is not set.\<close>

definition environ_get_USER :: "env \<Rightarrow> pyval" where
  "environ_get_USER env = (case environ_USER env of None \<Rightarrow> PNone | Some u \<Rightarrow> PStr u)"

text \<open>Lines 53 to 55.\<close>

definition add_metadata :: "env \<Rightarrow> params \<Rightarrow> params" where
  "add_metadata env p =
     p(''version'' \<mapsto> PStr (get_version env),
       ''user'' \<mapsto> environ_get_USER env,
       ''sessionId'' \<mapsto> PStr (get_session_id env))"

text \<open>Lines 70 to 78.\<close>

definition structure_of :: "params \<Rightarrow> string option \<Rightarrow> envelope" where
  "structure_of p stacktrace =
     \<lparr>logName = ''projects/clusterfuzz-tools/logs/client'',
      resource_type = ''project'',
      resource_labels = [(''project_id'', ''clusterfuzz-tools'')],
      entries = [\<lparr>jsonPayload = p,
                  severity = (if truthy_opt stacktrace then ''ERROR'' else ''INFO'')\<rparr>]\<rparr>"

text \<open>Lines 80 to 83.\<close>

definition post :: "envelope \<Rightarrow> request" where
  "post b = \<lparr>uri = ''https://logging.googleapis.com/v2/entries:write'',
             http_method = ''POST'', body = b\<rparr>"

definition send_log :: "env \<Rightarrow> params \<Rightarrow> string option \<Rightarrow> state \<Rightarrow> (exn + unit) \<times> state" where
  "send_log env params stacktrace s =
     (let n = calls s; s0 = s\<lparr>calls := Suc n\<rparr> in
      case authorize env n of
        Some e \<Rightarrow> (Inl e, s0)
      | None \<Rightarrow>
          (let p = add_metadata env params in
           case format_message p (prefix_of p) of
             Inl e \<Rightarrow> (Inl e, s0)
           | Inr msg \<Rightarrow>
               (let p' = p(''message'' \<mapsto> PStr (append_stacktrace msg stacktrace)) in
                case http_request env n of
                  Some e \<Rightarrow> (Inl e, s0)
                | None \<Rightarrow> (Inr (), s0\<lparr>posted := posted s0 @ [post (structure_of p' stacktrace)]\<rparr>))))"

section \<open>The three events\<close>

definition make_basic_params ::
  "pyval \<Rightarrow> pyval \<Rightarrow> pyval \<Rightarrow> pyval \<Rightarrow> pyval \<Rightarrow> pyval \<Rightarrow> pyval \<Rightarrow> pyval \<Rightarrow> pyval \<Rightarrow> pyval \<Rightarrow> params" where
  "make_basic_params command testcase_id build current disable_goma j iterations
                     disable_xvfb target_args edit_mode =
     [''testcaseId'' \<mapsto> testcase_id,
      ''buildType'' \<mapsto> build,
      ''current'' \<mapsto> current,
      ''command'' \<mapsto> command,
      ''disableGoma'' \<mapsto> disable_goma,
      ''j'' \<mapsto> j,
      ''iterations'' \<mapsto> iterations,
      ''disableXvfb'' \<mapsto> disable_xvfb,
      ''targetArgs'' \<mapsto> target_args,
      ''editMode'' \<mapsto> edit_mode]"

definition param_names :: "string list" where
  "param_names = [''command'', ''testcase_id'', ''build'', ''current'', ''disable_goma'',
                  ''j'', ''iterations'', ''disable_xvfb'', ''target_args'', ''edit_mode'']"

definition arg :: "kwargs \<Rightarrow> string \<Rightarrow> pyval" where
  "arg kw k = (case map_of kw k of Some v \<Rightarrow> v | None \<Rightarrow> PNone)"

text \<open>
  The call \<^verbatim>\<open>make_basic_params(**kwargs)\<close>: the interpreter raises \<^verbatim>\<open>TypeError\<close> for a
  keyword that is no parameter and for a parameter without a value (none has a default);
  otherwise every \<open>arg\<close> below finds its keyword.
\<close>

definition make_basic_params_kw :: "kwargs \<Rightarrow> exn + params" where
  "make_basic_params_kw kw =
     (if \<not> list_all (\<lambda>k. k \<in> set param_names) (map fst kw) then
        Inl (TypeError ''make_basic_params'')
      else if \<not> list_all (\<lambda>k. k \<in> set (map fst kw)) param_names then
        Inl (TypeError ''make_basic_params'')
      else
        Inr (make_basic_params (arg kw ''command'') (arg kw ''testcase_id'') (arg kw ''build'')
               (arg kw ''current'') (arg kw ''disable_goma'') (arg kw ''j'')
               (arg kw ''iterations'') (arg kw ''disable_xvfb'') (arg kw ''target_args'')
               (arg kw ''edit_mode'')))"

text \<open>
  \<^verbatim>\<open>send_start(**kwargs)\<close> and \<^verbatim>\<open>send_success(**kwargs)\<close> take no positional argument:
  a call with one raises \<^verbatim>\<open>TypeError\<close> before the body runs.
\<close>

definition send_start :: "env \<Rightarrow> pyval list \<Rightarrow> kwargs \<Rightarrow> state \<Rightarrow> (exn + unit) \<times> state" where
  "send_start env args kw s =
     (if args \<noteq> [] then (Inl (TypeError ''send_start''), s)
      else case make_basic_params_kw kw of
             Inl e \<Rightarrow> (Inl e, s)
           | Inr params \<Rightarrow> send_log env params None s)"

definition send_success :: "env \<Rightarrow> pyval list \<Rightarrow> kwargs \<Rightarrow> state \<Rightarrow> (exn + unit) \<times> state" where
  "send_success env args kw s =
     (if args \<noteq> [] then (Inl (TypeError ''send_success''), s)
      else case make_basic_params_kw kw of
             Inl e \<Rightarrow> (Inl e, s)
           | Inr params \<Rightarrow> send_log env (params(''success'' \<mapsto> PBool True)) None s)"

text \<open>
  \<^verbatim>\<open>send_failure(exception_name, stacktrace, **kwargs)\<close>: the two leading positional
  arguments are bound; a further positional argument, or a keyword naming one of the two,
  raises \<^verbatim>\<open>TypeError\<close>.
\<close>

definition send_failure ::
  "env \<Rightarrow> string \<Rightarrow> string \<Rightarrow> pyval list \<Rightarrow> kwargs \<Rightarrow> state \<Rightarrow> (exn + unit) \<times> state" where
  "send_failure env exception_name stacktrace args kw s =
     (if args \<noteq> [] then (Inl (TypeError ''send_failure''), s)
      else if ''exception_name'' \<in> set (map fst kw) \<or> ''stacktrace'' \<in> set (map fst kw) then
        (Inl (TypeError ''send_failure''), s)
      else case make_basic_params_kw kw of
             Inl e \<Rightarrow> (Inl e, s)
           | Inr params \<Rightarrow>
               send_log env (params(''exception'' \<mapsto> PStr exception_name,
                                    ''success'' \<mapsto> PBool False)) (Some stacktrace) s)"

section \<open>The decorator \<^verbatim>\<open>log\<close>\<close>

text \<open>
  The wrapped function: its \<^verbatim>\<open>__module__\<close> and what a call with given arguments does,
  return a value or raise. Its own effects are not part of \<open>state\<close>, which records what
  the decorator does.
\<close>

record func =
  func_module :: string
  run :: "pyval list \<Rightarrow> kwargs \<Rightarrow> exn + pyval"

text \<open>\<^verbatim>\<open>s.split(c)\<close>: the pieces between the occurrences of \<open>c\<close>, never an empty list.\<close>

fun split :: "char \<Rightarrow> string \<Rightarrow> string list" where
  "split c [] = [[]]"
| "split c (x # xs) =
     (if x = c then [] # split c xs
      else (case split c xs of [] \<Rightarrow> [[x]] | w # ws \<Rightarrow> (x # w) # ws))"

text \<open>Line 129.\<close>

definition command_name :: "func \<Rightarrow> string" where
  "command_name f = last (split (CHR ''.'') (func_module f))"

text \<open>
  A call \<^verbatim>\<open>g(*args, command=command_name, **kwargs)\<close>: a \<^verbatim>\<open>command\<close> among the
  caller's keywords is a second value for the same keyword, a \<^verbatim>\<open>TypeError\<close>.
\<close>

definition with_command :: "string \<Rightarrow> string \<Rightarrow> kwargs \<Rightarrow> exn + kwargs" where
  "with_command callee cmd kwargs =
     (if ''command'' \<in> set (map fst kwargs) then Inl (TypeError callee)
      else Inr (kwargs @ [(''command'', PStr cmd)]))"

text \<open>
  \<^verbatim>\<open>traceback.format_exc()\<close> inside a handler: the header line, then the stack entries
  and the line of the exception.
\<close>

definition format_exc :: "env \<Rightarrow> exn \<Rightarrow> string" where
  "format_exc env e = ''Traceback (most recent call last):'' @ [CHR 0x0A] @ traceback_rest env e"

text \<open>Line 132: \<^verbatim>\<open>send_start(*args, command=command_name, **kwargs)\<close>.\<close>

definition call_send_start ::
  "env \<Rightarrow> func \<Rightarrow> pyval list \<Rightarrow> kwargs \<Rightarrow> state \<Rightarrow> (exn + unit) \<times> state" where
  "call_send_start env f args kwargs s =
     (case with_command ''send_start'' (command_name f) kwargs of
        Inl e \<Rightarrow> (Inl e, s)
      | Inr kw \<Rightarrow> send_start env args kw s)"

text \<open>Line 133: \<^verbatim>\<open>func(*args, **kwargs)\<close>; the value returned is dropped.\<close>

definition call_func ::
  "func \<Rightarrow> pyval list \<Rightarrow> kwargs \<Rightarrow> state \<Rightarrow> (exn + unit) \<times> state" where
  "call_func f args kwargs s =
     (let s' = s\<lparr>invocations := invocations s @ [(args, kwargs)]\<rparr> in
      case run f args kwargs of
        Inl e \<Rightarrow> (Inl e, s')
      | Inr v \<Rightarrow> (Inr (), s'))"

text \<open>Line 134: \<^verbatim>\<open>send_success(*args, command=command_name, **kwargs)\<close>.\<close>

definition call_send_success ::
  "env \<Rightarrow> func \<Rightarrow> pyval list \<Rightarrow> kwargs \<Rightarrow> state \<Rightarrow> (exn + unit) \<times> state" where
  "call_send_success env f args kwargs s =
     (case with_command ''send_success'' (command_name f) kwargs of
        Inl e \<Rightarrow> (Inl e, s)
      | Inr kw \<Rightarrow> send_success env args kw s)"

text \<open>
  Lines 136 and 137: \<^verbatim>\<open>send_failure(e.__class__.__name__, traceback.format_exc(), *args,
  command=command_name, **kwargs)\<close> for the exception \<open>e\<close> being handled.
\<close>

definition call_send_failure ::
  "env \<Rightarrow> func \<Rightarrow> exn \<Rightarrow> pyval list \<Rightarrow> kwargs \<Rightarrow> state \<Rightarrow> (exn + unit) \<times> state" where
  "call_send_failure env f e args kwargs s =
     (case with_command ''send_failure'' (command_name f) kwargs of
        Inl e' \<Rightarrow> (Inl e', s)
      | Inr kw \<Rightarrow> send_failure env (class_name e) (format_exc env e) args kw s)"

text \<open>Lines 132 to 134: the body of the inner \<^verbatim>\<open>try\<close>, left at the first exception.\<close>

definition try_body ::
  "env \<Rightarrow> func \<Rightarrow> pyval list \<Rightarrow> kwargs \<Rightarrow> state \<Rightarrow> (exn + unit) \<times> state" where
  "try_body env f args kwargs s =
     (case call_send_start env f args kwargs s of
        (Inl e, s1) \<Rightarrow> (Inl e, s1)
      | (Inr u, s1) \<Rightarrow>
          (case call_func f args kwargs s1 of
             (Inl e, s2) \<Rightarrow> (Inl e, s2)
           | (Inr u, s2) \<Rightarrow> call_send_success env f args kwargs s2))"

text \<open>
  Lines 130 to 138: the inner \<^verbatim>\<open>try\<close> with its handler. An exception of the handler's
  own call of \<open>send_failure\<close> leaves the handler in place of the one handled; otherwise the
  bare \<^verbatim>\<open>raise\<close> raises the handled one again.
\<close>

definition inner_try ::
  "env \<Rightarrow> func \<Rightarrow> pyval list \<Rightarrow> kwargs \<Rightarrow> state \<Rightarrow> (exn + unit) \<times> state" where
  "inner_try env f args kwargs s =
     (case try_body env f args kwargs s of
        (Inr u, s1) \<Rightarrow> (Inr u, s1)
      | (Inl e, s1) \<Rightarrow>
          (case call_send_failure env f e args kwargs s1 of
             (Inl e', s2) \<Rightarrow> (Inl e', s2)
           | (Inr u, s2) \<Rightarrow> (Inl e, s2)))"

text \<open>Lines 139 to 141: the outer handler.\<close>

definition outer_handler :: "(exn + unit) \<times> state \<Rightarrow> outcome \<times> state" where
  "outer_handler r =
     (case r of
        (Inr u, s) \<Rightarrow> (Return PNone, s)
      | (Inl e, s) \<Rightarrow>
          (if category e = KeyboardInterrupt \<or> category e = ExpectedException then
             (Exit 1, s\<lparr>logged := logged s @ [class_name e @ '': '' @ message e]\<rparr>)
           else (Raise e, s)))"

text \<open>Lines 143 and 144.\<close>

definition trailer :: "env \<Rightarrow> string" where
  "trailer env = [CHR 0x0A] @ ''Detailed log of this run can be found in: '' @ LOG_FILE_PATH env"

text \<open>Lines 128 to 144: \<open>wrapped env f\<close> is the callable \<^verbatim>\<open>log(f)\<close>.\<close>

definition wrapped :: "env \<Rightarrow> func \<Rightarrow> pyval list \<Rightarrow> kwargs \<Rightarrow> state \<Rightarrow> outcome \<times> state" where
  "wrapped env f args kwargs s =
     (case outer_handler (inner_try env f args kwargs s) of
        (r, s') \<Rightarrow> (r, s'\<lparr>stdout := stdout s' @ [trailer env]\<rparr>))"

text \<open>
  What the caller sees of an exception that leaves the inner \<^verbatim>\<open>try\<close>: the first
  component of \<open>outer_handler\<close>.
\<close>

definition observed :: "exn \<Rightarrow> outcome" where
  "observed e =
     (if category e = KeyboardInterrupt \<or> category e = ExpectedException then Exit 1
      else Raise e)"

text \<open>The records and the severities of the requests posted so far, in order.\<close>

definition payloads :: "state \<Rightarrow> params list" where
  "payloads s = concat (map (\<lambda>r. map jsonPayload (entries (body r))) (posted s))"

definition severities :: "state \<Rightarrow> string list" where
  "severities s = concat (map (\<lambda>r. map severity (entries (body r))) (posted s))"

section \<open>Concrete runs\<close>

text \<open>
  A user \<^verbatim>\<open>bob\<close> running the command of module \<^verbatim>\<open>clusterfuzz.commands.reproduce\<close>
  on testcase 1234. In \<open>example_env\<close> every send finds its credentials and every POST
  returns; \<open>failing_env a h\<close> replaces the two by \<open>a\<close> and \<open>h\<close>.
\<close>

definition example_env :: env where
  "example_env =
     \<lparr>environ_USER = Some ''bob'', get_version = ''1.2.1'',
      SESSION_ID = ''bob:1478131200.5:6b1f'', LOG_FILE_PATH = ''/home/bob/.clusterfuzz/logs/output.log'',
      authorize = (\<lambda>n. None), http_request = (\<lambda>n. None),
      traceback_rest = (\<lambda>e. class_name e @ '': '' @ message e @ [CHR 0x0A])\<rparr>"

definition failing_env :: "(nat \<Rightarrow> exn option) \<Rightarrow> (nat \<Rightarrow> exn option) \<Rightarrow> env" where
  "failing_env a h = example_env\<lparr>authorize := a, http_request := h\<rparr>"

definition example_kwargs :: kwargs where
  "example_kwargs =
     [(''testcase_id'', PStr ''1234''), (''build'', PStr ''chromium''),
      (''current'', PBool False), (''disable_goma'', PBool False), (''j'', PInt 4),
      (''iterations'', PInt 10), (''disable_xvfb'', PBool False),
      (''target_args'', PStr []), (''edit_mode'', PBool False)]"

definition example_params :: "pyval \<Rightarrow> params" where
  "example_params build =
     make_basic_params (PStr ''reproduce'') (PStr ''1234'') build (PBool False) (PBool False)
       (PInt 4) (PInt 10) (PBool False) (PStr []) (PBool False)"

definition initial :: state where
  "initial = \<lparr>calls = 0, posted = [], invocations = [], logged = [], stdout = []\<rparr>"

definition value_error :: exn where
  "value_error = Exn ''ValueError'' Other ''bad input''"

definition interrupt :: exn where
  "interrupt = Exn ''KeyboardInterrupt'' KeyboardInterrupt []"

definition not_found :: exn where
  "not_found = Exn ''ServerNotFoundError'' Other ''Unable to find the server at logging.googleapis.com''"

definition timed_out :: exn where
  "timed_out = Exn ''timeout'' Other ''timed out''"

definition expected_error :: exn where
  "expected_error = Exn ''ExpectedException'' ExpectedException ''the testcase is not reproducible''"

definition returning :: "pyval \<Rightarrow> func" where
  "returning v = \<lparr>func_module = ''clusterfuzz.commands.reproduce'', run = (\<lambda>args kwargs. Inr v)\<rparr>"

definition raising :: "exn \<Rightarrow> func" where
  "raising e = \<lparr>func_module = ''clusterfuzz.commands.reproduce'', run = (\<lambda>args kwargs. Inl e)\<rparr>"

text \<open>The exception of the \<open>n\<close>-th send only.\<close>

definition only_at :: "nat \<Rightarrow> exn \<Rightarrow> nat \<Rightarrow> exn option" where
  "only_at n e k = (if k = n then Some e else None)"

definition never :: "nat \<Rightarrow> exn option" where
  "never k = None"

section \<open>What a send leaves behind\<close>

lemma send_log_raises:
  "send_log env p st s = (Inl e, s') \<Longrightarrow> s' = s\<lparr>calls := Suc (calls s)\<rparr>"
  by (auto simp: send_log_def Let_def split: option.splits sum.splits)

lemma send_log_returns:
  assumes "send_log env p st s = (Inr u, s')"
  shows "\<exists>msg. format_message (add_metadata env p) (prefix_of (add_metadata env p)) = Inr msg
           \<and> s' = s\<lparr>calls := Suc (calls s),
                    posted := posted s @ [post (structure_of ((add_metadata env p)
                       (''message'' \<mapsto> PStr (append_stacktrace msg st))) st)]\<rparr>"
  using assms by (auto simp: send_log_def Let_def split: option.splits sum.splits)

lemma prefix_of_add_metadata: "prefix_of (add_metadata env p) = prefix_of p"
  by (simp add: prefix_of_def add_metadata_def)

lemma format_message_Inr:
  assumes "format_message p pre = Inr msg"
  shows "\<exists>user command testcaseId buildType current disableGoma.
           p ''user'' = Some user \<and> p ''command'' = Some command
         \<and> p ''testcaseId'' = Some testcaseId \<and> p ''buildType'' = Some buildType
         \<and> p ''current'' = Some current \<and> p ''disableGoma'' = Some disableGoma
         \<and> msg = py_str user @ '' '' @ pre @ '' running '' @ py_str command
             @ '' with testcase='' @ py_str testcaseId
             @ '', build_type='' @ py_str buildType
             @ '', current='' @ py_str current
             @ '', and goma='' @ (if truthy disableGoma then ''disabled'' else ''enabled'')"
  using assms unfolding format_message_def getitem_def
  by (auto split: option.splits sum.splits)

lemma format_message_basic:
  assumes "p ''command'' = Some command" "p ''testcaseId'' = Some testcaseId"
    "p ''buildType'' = Some buildType" "p ''current'' = Some current" "p ''disableGoma'' = Some disableGoma"
  shows "\<exists>msg. format_message (add_metadata env p) pre = Inr msg"
  using assms unfolding format_message_def getitem_def add_metadata_def
  by (simp split: option.splits)

lemma arg_with_command:
  "with_command c cmd kwargs = Inr kw \<Longrightarrow> arg kw ''command'' = PStr cmd"
proof -
  assume a: "with_command c cmd kwargs = Inr kw"
  then have k: "''command'' \<notin> fst ` set kwargs" and kw: "kw = kwargs @ [(''command'', PStr cmd)]"
    by (auto simp: with_command_def split: if_splits)
  from k have "map_of kwargs ''command'' = None"
    by (simp add: map_of_eq_None_iff)
  with kw show ?thesis
    by (simp add: arg_def map_add_def)
qed

lemma make_basic_params_kw_Inr:
  "make_basic_params_kw kw = Inr p \<Longrightarrow>
     p = make_basic_params (arg kw ''command'') (arg kw ''testcase_id'') (arg kw ''build'')
               (arg kw ''current'') (arg kw ''disable_goma'') (arg kw ''j'')
               (arg kw ''iterations'') (arg kw ''disable_xvfb'') (arg kw ''target_args'')
               (arg kw ''edit_mode'')"
  by (simp add: make_basic_params_kw_def split: if_splits)

lemma format_exc_nonempty: "format_exc env e \<noteq> []"
  by (simp add: format_exc_def)

section \<open>What the calls leave untouched\<close>

lemma send_log_frame:
  "stdout (snd (send_log env p st s)) = stdout s
   \<and> logged (snd (send_log env p st s)) = logged s
   \<and> invocations (snd (send_log env p st s)) = invocations s"
  by (simp add: send_log_def Let_def split: option.splits sum.splits)

lemma send_start_frame:
  "stdout (snd (send_start env args kw s)) = stdout s
   \<and> logged (snd (send_start env args kw s)) = logged s
   \<and> invocations (snd (send_start env args kw s)) = invocations s"
  by (simp add: send_start_def send_log_frame split: sum.splits)

lemma send_success_frame:
  "stdout (snd (send_success env args kw s)) = stdout s
   \<and> logged (snd (send_success env args kw s)) = logged s
   \<and> invocations (snd (send_success env args kw s)) = invocations s"
  by (simp add: send_success_def send_log_frame split: sum.splits)

lemma send_failure_frame:
  "stdout (snd (send_failure env n t args kw s)) = stdout s
   \<and> logged (snd (send_failure env n t args kw s)) = logged s
   \<and> invocations (snd (send_failure env n t args kw s)) = invocations s"
  by (simp add: send_failure_def send_log_frame split: sum.splits)

lemma call_send_start_frame:
  "stdout (snd (call_send_start env f args kwargs s)) = stdout s
   \<and> logged (snd (call_send_start env f args kwargs s)) = logged s
   \<and> invocations (snd (call_send_start env f args kwargs s)) = invocations s"
  by (simp add: call_send_start_def send_start_frame split: sum.splits)

lemma call_send_success_frame:
  "stdout (snd (call_send_success env f args kwargs s)) = stdout s
   \<and> logged (snd (call_send_success env f args kwargs s)) = logged s
   \<and> invocations (snd (call_send_success env f args kwargs s)) = invocations s"
  by (simp add: call_send_success_def send_success_frame split: sum.splits)

lemma call_send_failure_frame:
  "stdout (snd (call_send_failure env f e args kwargs s)) = stdout s
   \<and> logged (snd (call_send_failure env f e args kwargs s)) = logged s
   \<and> invocations (snd (call_send_failure env f e args kwargs s)) = invocations s"
  by (simp add: call_send_failure_def send_failure_frame split: sum.splits)

lemma call_func_frame:
  "stdout (snd (call_func f args kwargs s)) = stdout s
   \<and> logged (snd (call_func f args kwargs s)) = logged s
   \<and> posted (snd (call_func f args kwargs s)) = posted s
   \<and> calls (snd (call_func f args kwargs s)) = calls s"
  by (simp add: call_func_def Let_def split: sum.splits)

lemma try_body_frame:
  "stdout (snd (try_body env f args kwargs s)) = stdout s
   \<and> logged (snd (try_body env f args kwargs s)) = logged s"
proof -
  obtain r1 s1 where a: "call_send_start env f args kwargs s = (r1, s1)" by force
  obtain r2 s2 where b: "call_func f args kwargs s1 = (r2, s2)" by force
  obtain r3 s3 where c: "call_send_success env f args kwargs s2 = (r3, s3)" by force
  from a have a': "stdout s1 = stdout s \<and> logged s1 = logged s"
    using call_send_start_frame [of env f args kwargs s] by simp
  from b have b': "stdout s2 = stdout s1 \<and> logged s2 = logged s1"
    using call_func_frame [of f args kwargs s1] by simp
  from c have c': "stdout s3 = stdout s2 \<and> logged s3 = logged s2"
    using call_send_success_frame [of env f args kwargs s2] by simp
  show ?thesis
    using a b c a' b' c' by (simp add: try_body_def split: sum.splits)
qed

lemma inner_try_frame:
  "stdout (snd (inner_try env f args kwargs s)) = stdout s
   \<and> logged (snd (inner_try env f args kwargs s)) = logged s"
proof -
  obtain r1 s1 where a: "try_body env f args kwargs s = (r1, s1)" by force
  from a have a': "stdout s1 = stdout s \<and> logged s1 = logged s"
    using try_body_frame [of env f args kwargs s] by simp
  show ?thesis
  proof (cases r1)
    case (Inr u)
    with a a' show ?thesis by (simp add: inner_try_def)
  next
    case (Inl e)
    obtain r2 s2 where b: "call_send_failure env f e args kwargs s1 = (r2, s2)" by force
    from b have "stdout s2 = stdout s1 \<and> logged s2 = logged s1"
      using call_send_failure_frame [of env f e args kwargs s1] by simp
    with a a' b Inl show ?thesis by (simp add: inner_try_def split: sum.splits)
  qed
qed

lemma outer_handler_stdout: "stdout (snd (outer_handler r)) = stdout (snd r)"
  by (cases r) (simp add: outer_handler_def split: sum.splits)

section \<open>The event each send posts\<close>

text \<open>Lines 70 to 83 spelled out: the request that carries a record \<open>p\<close>.\<close>

lemma post_structure_of:
  "post (structure_of p st) =
     \<lparr>uri = ''https://logging.googleapis.com/v2/entries:write'',
      http_method = ''POST'',
      body = \<lparr>logName = ''projects/clusterfuzz-tools/logs/client'',
              resource_type = ''project'',
              resource_labels = [(''project_id'', ''clusterfuzz-tools'')],
              entries = [\<lparr>jsonPayload = p,
                          severity = (if truthy_opt st then ''ERROR'' else ''INFO'')\<rparr>]\<rparr>\<rparr>"
  by (simp add: post_def structure_of_def)

lemma basic_params_entries:
  "make_basic_params c t b cu g j i x ta em ''success'' = None"
  "make_basic_params c t b cu g j i x ta em ''exception'' = None"
  "make_basic_params c t b cu g j i x ta em ''command'' = Some c"
  "make_basic_params c t b cu g j i x ta em ''testcaseId'' = Some t"
  "make_basic_params c t b cu g j i x ta em ''buildType'' = Some b"
  "make_basic_params c t b cu g j i x ta em ''current'' = Some cu"
  "make_basic_params c t b cu g j i x ta em ''disableGoma'' = Some g"
  by (simp_all add: make_basic_params_def)

lemma add_metadata_entries:
  "add_metadata env p ''user'' = Some (environ_get_USER env)"
  "add_metadata env p ''testcaseId'' = p ''testcaseId''"
  "add_metadata env p ''buildType'' = p ''buildType''"
  "add_metadata env p ''current'' = p ''current''"
  "add_metadata env p ''disableGoma'' = p ''disableGoma''"
  "add_metadata env p ''success'' = p ''success''"
  "add_metadata env p ''exception'' = p ''exception''"
  "add_metadata env p ''command'' = p ''command''"
  "add_metadata env p ''sessionId'' = Some (PStr (get_session_id env))"
  by (simp_all add: add_metadata_def)

lemma send_log_posts:
  assumes "send_log env p st s = (Inr u, s')"
  shows "\<exists>q msg. s' = s\<lparr>calls := Suc (calls s), posted := posted s @ [
      \<lparr>uri = ''https://logging.googleapis.com/v2/entries:write'',
       http_method = ''POST'',
       body = \<lparr>logName = ''projects/clusterfuzz-tools/logs/client'',
               resource_type = ''project'',
               resource_labels = [(''project_id'', ''clusterfuzz-tools'')],
               entries = [\<lparr>jsonPayload = q,
                           severity = (if truthy_opt st then ''ERROR'' else ''INFO'')\<rparr>]\<rparr>\<rparr>]\<rparr>
           \<and> q ''success'' = p ''success'' \<and> q ''exception'' = p ''exception''
           \<and> q ''command'' = p ''command'' \<and> q ''sessionId'' = Some (PStr (get_session_id env))
           \<and> q ''message'' = Some (PStr (append_stacktrace msg st))"
proof -
  from send_log_returns [OF assms] obtain msg where
    s': "s' = s\<lparr>calls := Suc (calls s),
                posted := posted s @ [post (structure_of ((add_metadata env p)
                   (''message'' \<mapsto> PStr (append_stacktrace msg st))) st)]\<rparr>"
    by blast
  let ?q = "(add_metadata env p)(''message'' \<mapsto> PStr (append_stacktrace msg st))"
  have "?q ''success'' = p ''success''" "?q ''exception'' = p ''exception''"
    "?q ''command'' = p ''command''" "?q ''sessionId'' = Some (PStr (get_session_id env))"
    "?q ''message'' = Some (PStr (append_stacktrace msg st))"
    by (simp_all add: add_metadata_entries)
  with s' [unfolded post_structure_of] show ?thesis by blast
qed

lemma call_send_start_returns:
  assumes "call_send_start env f args kwargs s = (Inr u, s1)"
  shows "\<exists>p. s1 = s\<lparr>calls := Suc (calls s), posted := posted s @ [
      \<lparr>uri = ''https://logging.googleapis.com/v2/entries:write'',
       http_method = ''POST'',
       body = \<lparr>logName = ''projects/clusterfuzz-tools/logs/client'',
               resource_type = ''project'',
               resource_labels = [(''project_id'', ''clusterfuzz-tools'')],
               entries = [\<lparr>jsonPayload = p,
                           severity = ''INFO''\<rparr>]\<rparr>\<rparr>]\<rparr>
           \<and> p ''success'' = None \<and> p ''exception'' = None
           \<and> p ''command'' = Some (PStr (command_name f))
           \<and> p ''sessionId'' = Some (PStr (get_session_id env))"
proof -
  from assms obtain kw where kw: "with_command ''send_start'' (command_name f) kwargs = Inr kw"
    and a: "send_start env args kw s = (Inr u, s1)"
    by (auto simp: call_send_start_def split: sum.splits)
  from a obtain params where pa: "make_basic_params_kw kw = Inr params"
    and b: "send_log env params None s = (Inr u, s1)"
    by (auto simp: send_start_def split: if_splits sum.splits)
  from make_basic_params_kw_Inr [OF pa] arg_with_command [OF kw]
  have "params ''success'' = None" "params ''exception'' = None"
    "params ''command'' = Some (PStr (command_name f))"
    by (simp_all add: basic_params_entries)
  with send_log_posts [OF b] show ?thesis by auto
qed

lemma call_send_success_returns:
  assumes "call_send_success env f args kwargs s = (Inr u, s1)"
  shows "\<exists>p. s1 = s\<lparr>calls := Suc (calls s), posted := posted s @ [
      \<lparr>uri = ''https://logging.googleapis.com/v2/entries:write'',
       http_method = ''POST'',
       body = \<lparr>logName = ''projects/clusterfuzz-tools/logs/client'',
               resource_type = ''project'',
               resource_labels = [(''project_id'', ''clusterfuzz-tools'')],
               entries = [\<lparr>jsonPayload = p,
                           severity = ''INFO''\<rparr>]\<rparr>\<rparr>]\<rparr>
           \<and> p ''success'' = Some (PBool True) \<and> p ''exception'' = None
           \<and> p ''command'' = Some (PStr (command_name f))
           \<and> p ''sessionId'' = Some (PStr (get_session_id env))"
proof -
  from assms obtain kw where kw: "with_command ''send_success'' (command_name f) kwargs = Inr kw"
    and a: "send_success env args kw s = (Inr u, s1)"
    by (auto simp: call_send_success_def split: sum.splits)
  from a obtain params where pa: "make_basic_params_kw kw = Inr params"
    and b: "send_log env (params(''success'' \<mapsto> PBool True)) None s = (Inr u, s1)"
    by (auto simp: send_success_def split: if_splits sum.splits)
  from make_basic_params_kw_Inr [OF pa] arg_with_command [OF kw]
  have "(params(''success'' \<mapsto> PBool True)) ''success'' = Some (PBool True)"
    "(params(''success'' \<mapsto> PBool True)) ''exception'' = None"
    "(params(''success'' \<mapsto> PBool True)) ''command'' = Some (PStr (command_name f))"
    by (simp_all add: basic_params_entries)
  with send_log_posts [OF b] show ?thesis by auto
qed

lemma call_send_failure_returns:
  assumes "call_send_failure env f e args kwargs s = (Inr u, s1)"
  shows "\<exists>p msg. s1 = s\<lparr>calls := Suc (calls s),
                    posted := posted s @ [
                        \<lparr>uri = ''https://logging.googleapis.com/v2/entries:write'',
                         http_method = ''POST'',
                         body = \<lparr>logName = ''projects/clusterfuzz-tools/logs/client'',
                                 resource_type = ''project'',
                                 resource_labels = [(''project_id'', ''clusterfuzz-tools'')],
                                 entries = [\<lparr>jsonPayload = p,
                                             severity = ''ERROR''\<rparr>]\<rparr>\<rparr>]\<rparr>
           \<and> p ''success'' = Some (PBool False) \<and> p ''exception'' = Some (PStr (class_name e))
           \<and> p ''command'' = Some (PStr (command_name f))
           \<and> p ''sessionId'' = Some (PStr (get_session_id env))
           \<and> p ''message'' = Some (PStr (msg @ [CHR 0x0A] @ format_exc env e))"
proof -
  from assms obtain kw where kw: "with_command ''send_failure'' (command_name f) kwargs = Inr kw"
    and a: "send_failure env (class_name e) (format_exc env e) args kw s = (Inr u, s1)"
    by (auto simp: call_send_failure_def split: sum.splits)
  let ?ext = "\<lambda>params::params. params(''exception'' \<mapsto> PStr (class_name e), ''success'' \<mapsto> PBool False)"
  from a obtain params where pa: "make_basic_params_kw kw = Inr params"
    and b: "send_log env (?ext params) (Some (format_exc env e)) s = (Inr u, s1)"
    by (auto simp: send_failure_def split: if_splits sum.splits)
  from make_basic_params_kw_Inr [OF pa] arg_with_command [OF kw]
  have "?ext params ''success'' = Some (PBool False)"
    "?ext params ''exception'' = Some (PStr (class_name e))"
    "?ext params ''command'' = Some (PStr (command_name f))"
    by (simp_all add: basic_params_entries)
  with send_log_posts [OF b] show ?thesis
    by (auto simp: append_stacktrace_def format_exc_nonempty)
qed

lemma call_send_raises:
  "call_send_start env f args kwargs s = (Inl e, s1) \<Longrightarrow> posted s1 = posted s"
  "call_send_success env f args kwargs s = (Inl e, s1) \<Longrightarrow> posted s1 = posted s"
  "call_send_failure env f x args kwargs s = (Inl e, s1) \<Longrightarrow> posted s1 = posted s"
  by (auto simp: call_send_start_def call_send_success_def call_send_failure_def
      send_start_def send_success_def send_failure_def
      dest!: send_log_raises split: sum.splits if_splits)

section \<open>The paths through the wrapped callable\<close>

lemma call_func_result:
  "call_func f args kwargs s = (r, s') \<Longrightarrow>
     s' = s\<lparr>invocations := invocations s @ [(args, kwargs)]\<rparr>
     \<and> (case r of Inl e \<Rightarrow> run f args kwargs = Inl e | Inr u \<Rightarrow> (\<exists>v. run f args kwargs = Inr v))"
  by (auto simp: call_func_def Let_def split: sum.splits)

lemma try_body_start_raises:
  "call_send_start env f args kwargs s = (Inl e, s1) \<Longrightarrow> try_body env f args kwargs s = (Inl e, s1)"
  by (simp add: try_body_def)

lemma try_body_func_raises:
  "call_send_start env f args kwargs s = (Inr u, s1) \<Longrightarrow> call_func f args kwargs s1 = (Inl e, s2)
   \<Longrightarrow> try_body env f args kwargs s = (Inl e, s2)"
  by (simp add: try_body_def)

lemma try_body_func_returns:
  "call_send_start env f args kwargs s = (Inr u, s1) \<Longrightarrow> call_func f args kwargs s1 = (Inr u', s2)
   \<Longrightarrow> try_body env f args kwargs s = call_send_success env f args kwargs s2"
  by (simp add: try_body_def)

lemma inner_try_returns:
  "try_body env f args kwargs s = (Inr u, s1) \<Longrightarrow> inner_try env f args kwargs s = (Inr u, s1)"
  by (simp add: inner_try_def)

lemma inner_try_reported:
  "try_body env f args kwargs s = (Inl e, s1) \<Longrightarrow> call_send_failure env f e args kwargs s1 = (Inr u, s2)
   \<Longrightarrow> inner_try env f args kwargs s = (Inl e, s2)"
  by (simp add: inner_try_def)

lemma inner_try_masked:
  "try_body env f args kwargs s = (Inl e, s1) \<Longrightarrow> call_send_failure env f e args kwargs s1 = (Inl x, s2)
   \<Longrightarrow> inner_try env f args kwargs s = (Inl x, s2)"
  by (simp add: inner_try_def)

lemma wrapped_of_inner_try:
  assumes "inner_try env f args kwargs s = (r, s1)"
  shows "fst (wrapped env f args kwargs s) = (case r of Inr u \<Rightarrow> Return PNone | Inl e \<Rightarrow> observed e)"
    and "posted (snd (wrapped env f args kwargs s)) = posted s1"
    and "invocations (snd (wrapped env f args kwargs s)) = invocations s1"
    and "calls (snd (wrapped env f args kwargs s)) = calls s1"
    and "logged (snd (wrapped env f args kwargs s)) =
           (case r of Inr u \<Rightarrow> logged s1
            | Inl e \<Rightarrow> if category e = KeyboardInterrupt \<or> category e = ExpectedException
                       then logged s1 @ [class_name e @ '': '' @ message e] else logged s1)"
  using assms by (auto simp: wrapped_def outer_handler_def observed_def split: sum.splits)

section \<open>The command name\<close>

lemma split_nonempty: "split c xs \<noteq> []"
  by (induction xs) (auto split: list.splits)

lemma split_no_separator: "c \<notin> set xs \<Longrightarrow> split c xs = [xs]"
  by (induction xs) auto

lemma split_single: "split c xs = [w] \<Longrightarrow> xs = w"
proof (induction xs arbitrary: w)
  case Nil
  then show ?case by simp
next
  case (Cons x xs)
  show ?case
  proof (cases "x = c")
    case True
    with Cons.prems split_nonempty [of c xs] show ?thesis by simp
  next
    case False
    obtain v vs where v: "split c xs = v # vs"
      using split_nonempty [of c xs] by (cases "split c xs") auto
    with False Cons.prems have "vs = []" "w = x # v" by auto
    with v Cons.IH [of v] show ?thesis by simp
  qed
qed

lemma last_split_no_separator: "c \<notin> set (last (split c xs))"
proof (induction xs)
  case Nil
  then show ?case by simp
next
  case (Cons x xs)
  obtain v vs where v: "split c xs = v # vs"
    using split_nonempty [of c xs] by (cases "split c xs") auto
  with Cons show ?case by (cases "vs = []") auto
qed

lemma last_split_suffix:
  "\<exists>pre. xs = pre @ last (split c xs) \<and> (pre = [] \<or> last pre = c)"
proof (induction xs)
  case Nil
  then show ?case by simp
next
  case (Cons x xs)
  then obtain pre where pre: "xs = pre @ last (split c xs)" "pre = [] \<or> last pre = c"
    by blast
  obtain v vs where v: "split c xs = v # vs"
    using split_nonempty [of c xs] by (cases "split c xs") auto
  show ?case
  proof (cases "x = c")
    case True
    have "x # xs = (x # pre) @ last (split c (x # xs))"
      using pre(1) True v by simp
    moreover have "last (x # pre) = c"
      using pre(2) True by auto
    ultimately show ?thesis by blast
  next
    case False
    show ?thesis
    proof (cases "vs = []")
      case True
      with v have "xs = v" by (simp add: split_single)
      with v True False have "x # xs = [] @ last (split c (x # xs))" by simp
      then show ?thesis by blast
    next
      case vs: False
      have "pre \<noteq> []"
      proof
        assume "pre = []"
        with pre(1) have "c \<notin> set xs"
          using last_split_no_separator [of c xs] by simp
        then have "split c xs = [xs]" by (rule split_no_separator)
        with v vs show False by simp
      qed
      with pre(2) have "last (x # pre) = c" by simp
      moreover have "x # xs = (x # pre) @ last (split c (x # xs))"
        using pre(1) v vs False by simp
      ultimately show ?thesis by blast
    qed
  qed
qed

lemma command_name_last_component:
  "\<exists>pre. func_module f = pre @ command_name f \<and> (pre = [] \<or> last pre = CHR ''.'')"
  "CHR ''.'' \<notin> set (command_name f)"
  unfolding command_name_def
  by (rule last_split_suffix, rule last_split_no_separator)

section \<open>Evaluating the concrete runs\<close>

lemma example_command: "command_name (returning v) = ''reproduce''" "command_name (raising e) = ''reproduce''"
  by (simp_all add: command_name_def returning_def raising_def)

lemma example_module: "func_module (returning v) = ''clusterfuzz.commands.reproduce''"
  by (simp add: returning_def)

lemma example_params_entries:
  "example_params b ''command'' = Some (PStr ''reproduce'')"
  "example_params b ''testcaseId'' = Some (PStr ''1234'')"
  "example_params b ''buildType'' = Some b"
  "example_params b ''current'' = Some (PBool False)"
  "example_params b ''disableGoma'' = Some (PBool False)"
  "example_params b ''success'' = None"
  by (simp_all add: example_params_def basic_params_entries)

lemma example_bind:
  "with_command callee ''reproduce'' example_kwargs
     = Inr (example_kwargs @ [(''command'', PStr ''reproduce'')])"
  "make_basic_params_kw (example_kwargs @ [(''command'', PStr ''reproduce'')])
     = Inr (example_params (PStr ''chromium''))"
  "''exception_name'' \<notin> fst ` set example_kwargs"
  "''stacktrace'' \<notin> fst ` set example_kwargs"
  by (simp_all add: with_command_def make_basic_params_kw_def param_names_def
      example_kwargs_def example_params_def arg_def)

lemma example_sends:
  assumes "command_name f = ''reproduce''"
  shows "call_send_start env f [] example_kwargs s
           = send_log env (example_params (PStr ''chromium'')) None s"
    and "call_send_success env f [] example_kwargs s
           = send_log env ((example_params (PStr ''chromium''))(''success'' \<mapsto> PBool True)) None s"
    and "call_send_failure env f e [] example_kwargs s
           = send_log env ((example_params (PStr ''chromium''))
                 (''exception'' \<mapsto> PStr (class_name e), ''success'' \<mapsto> PBool False))
               (Some (format_exc env e)) s"
  using assms
  by (simp_all add: call_send_start_def call_send_success_def call_send_failure_def
      send_start_def send_success_def send_failure_def example_bind)

lemma send_log_complete:
  assumes "p ''command'' = Some c" "p ''testcaseId'' = Some t" "p ''buildType'' = Some b"
    "p ''current'' = Some cu" "p ''disableGoma'' = Some g"
  shows "send_log env p st s =
     (case authorize env (calls s) of
        Some e \<Rightarrow> (Inl e, s\<lparr>calls := Suc (calls s)\<rparr>)
      | None \<Rightarrow>
          (case http_request env (calls s) of
             Some e \<Rightarrow> (Inl e, s\<lparr>calls := Suc (calls s)\<rparr>)
           | None \<Rightarrow>
               (Inr (), s\<lparr>calls := Suc (calls s),
                          posted := posted s @ [post (structure_of ((add_metadata env p)
                            (''message'' \<mapsto> PStr (append_stacktrace
                               (projr (format_message (add_metadata env p) (prefix_of p))) st)))
                            st)]\<rparr>)))"
proof -
  from format_message_basic [OF assms] obtain msg where
    "format_message (add_metadata env p) (prefix_of p) = Inr msg"
    by blast
  then show ?thesis
    by (simp add: send_log_def Let_def prefix_of_add_metadata split: option.splits)
qed

lemma example_env_simps:
  "authorize example_env n = None" "http_request example_env n = None"
  "authorize (failing_env a h) = a" "http_request (failing_env a h) = h"
  "calls initial = 0" "posted initial = []" "invocations initial = []"
  "logged initial = []" "stdout initial = []"
  "run (returning v) args kwargs = Inr v" "run (raising e) args kwargs = Inl e"
  by (simp_all add: example_env_def failing_env_def initial_def returning_def raising_def)

lemmas run_defs =
  wrapped_def outer_handler_def inner_try_def try_body_def call_func_def Let_def

lemmas example_defs =
  example_command example_sends send_log_complete example_params_entries example_env_simps
  add_metadata_entries
  only_at_def never_def value_error_def interrupt_def not_found_def timed_out_def
  expected_error_def

section \<open>The trailer line\<close>

text \<open>
  Claim C7. On every path of the wrapped callable (normal return, exception raised again,
  exit on an expected exception, failure of a send) the line naming the local log file is
  printed exactly once: whatever the environment, the wrapped function, the arguments and
  the state before, the call adds this one line to standard output and nothing else, and
  the line ends with the path of the log file.
\<close>

theorem trailer_printed_once:
  "stdout (snd (wrapped env f args kwargs s)) = stdout s @ [trailer env]
   \<and> suffix (LOG_FILE_PATH env) (trailer env)"
proof -
  have "stdout (snd (wrapped env f args kwargs s))
          = stdout (snd (outer_handler (inner_try env f args kwargs s))) @ [trailer env]"
    by (simp add: wrapped_def split: prod.splits)
  also have "\<dots> = stdout s @ [trailer env]"
    by (simp add: outer_handler_stdout inner_try_frame)
  finally show ?thesis
    by (simp add: trailer_def suffix_def)
qed

section \<open>The value returned\<close>

lemma outer_handler_Return: "fst (outer_handler r) = Return v \<Longrightarrow> v = PNone"
  by (cases r) (auto simp: outer_handler_def split: sum.splits if_splits)

text \<open>
  Claim C8. When the callable made by \<open>log\<close> completes normally it returns \<^verbatim>\<open>None\<close>,
  for every wrapped function and all arguments: the value of the wrapped function is
  dropped.
\<close>

theorem wrapped_returns_None:
  "fst (wrapped env f args kwargs s) = Return v \<Longrightarrow> v = PNone"
  using outer_handler_Return [of "inner_try env f args kwargs s" v]
  by (simp add: wrapped_def split: prod.splits)

theorem wrapped_returns_None_witness:
  "fst (wrapped example_env (returning (PInt 7)) [] example_kwargs initial) = Return PNone
   \<and> run (returning (PInt 7)) [] example_kwargs = Inr (PInt 7)"
proof -
  have "\<exists>v. fst (wrapped example_env (returning (PInt 7)) [] example_kwargs initial) = Return v"
    by (simp add: run_defs example_defs)
  then obtain v where
    v: "fst (wrapped example_env (returning (PInt 7)) [] example_kwargs initial) = Return v" ..
  from wrapped_returns_None [OF v] v show ?thesis
    by (simp add: returning_def)
qed

section \<open>A wrapped function that returns\<close>

text \<open>
  Claim C1. When the wrapped function returns normally and the sends succeed (the call of
  \<open>send_start\<close> returns, the function returns, the call of \<open>send_success\<close> returns), the
  decorator posts exactly two events, in this order: a start event whose record has no
  \<^verbatim>\<open>success\<close> entry, then an event with \<^verbatim>\<open>success\<close> true. Both records carry the
  session id and the same command name, which is the last dotted component of the
  function's module name: the part of the name after its last dot, itself free of dots.
\<close>

theorem log_success_two_events:
  assumes start: "call_send_start env f args kwargs s = (Inr (), s1)"
    and func: "call_func f args kwargs s1 = (Inr (), s2)"
    and success: "call_send_success env f args kwargs s2 = (Inr (), s3)"
  shows "\<exists>p1 p2. posted (snd (wrapped env f args kwargs s))
                   = posted s @ [
                       \<lparr>uri = ''https://logging.googleapis.com/v2/entries:write'',
                        http_method = ''POST'',
                        body = \<lparr>logName = ''projects/clusterfuzz-tools/logs/client'',
                                resource_type = ''project'',
                                resource_labels = [(''project_id'', ''clusterfuzz-tools'')],
                                entries = [\<lparr>jsonPayload = p1,
                                            severity = ''INFO''\<rparr>]\<rparr>\<rparr>,
                       \<lparr>uri = ''https://logging.googleapis.com/v2/entries:write'',
                        http_method = ''POST'',
                        body = \<lparr>logName = ''projects/clusterfuzz-tools/logs/client'',
                                resource_type = ''project'',
                                resource_labels = [(''project_id'', ''clusterfuzz-tools'')],
                                entries = [\<lparr>jsonPayload = p2,
                                            severity = ''INFO''\<rparr>]\<rparr>\<rparr>]
           \<and> p1 ''success'' = None \<and> p2 ''success'' = Some (PBool True)
           \<and> p1 ''sessionId'' = Some (PStr (get_session_id env))
           \<and> p2 ''sessionId'' = Some (PStr (get_session_id env))
           \<and> p1 ''command'' = Some (PStr (command_name f))
           \<and> p2 ''command'' = Some (PStr (command_name f))
           \<and> CHR ''.'' \<notin> set (command_name f)
           \<and> (\<exists>pre. func_module f = pre @ command_name f \<and> (pre = [] \<or> last pre = CHR ''.''))"
proof -
  from call_send_start_returns [OF start] obtain p1 where
    s1: "posted s1 = posted s @ [
        \<lparr>uri = ''https://logging.googleapis.com/v2/entries:write'',
         http_method = ''POST'',
         body = \<lparr>logName = ''projects/clusterfuzz-tools/logs/client'',
                 resource_type = ''project'',
                 resource_labels = [(''project_id'', ''clusterfuzz-tools'')],
                 entries = [\<lparr>jsonPayload = p1,
                             severity = ''INFO''\<rparr>]\<rparr>\<rparr>]"
    and p1: "p1 ''success'' = None" "p1 ''sessionId'' = Some (PStr (get_session_id env))"
      "p1 ''command'' = Some (PStr (command_name f))"
    by auto
  from call_func_result [OF func] have s2: "posted s2 = posted s1" by simp
  from call_send_success_returns [OF success] obtain p2 where
    s3: "posted s3 = posted s2 @ [
        \<lparr>uri = ''https://logging.googleapis.com/v2/entries:write'',
         http_method = ''POST'',
         body = \<lparr>logName = ''projects/clusterfuzz-tools/logs/client'',
                 resource_type = ''project'',
                 resource_labels = [(''project_id'', ''clusterfuzz-tools'')],
                 entries = [\<lparr>jsonPayload = p2,
                             severity = ''INFO''\<rparr>]\<rparr>\<rparr>]"
    and p2: "p2 ''success'' = Some (PBool True)" "p2 ''sessionId'' = Some (PStr (get_session_id env))"
      "p2 ''command'' = Some (PStr (command_name f))"
    by auto
  have "try_body env f args kwargs s = (Inr (), s3)"
    using try_body_func_returns [OF start func] success by simp
  then have "inner_try env f args kwargs s = (Inr (), s3)"
    by (rule inner_try_returns)
  then have "posted (snd (wrapped env f args kwargs s)) = posted s3"
    by (rule wrapped_of_inner_try)
  with s1 s2 s3 p1 p2 command_name_last_component [of f] show ?thesis by auto
qed

theorem log_success_two_events_witness:
  "\<exists>p1 p2. posted (snd (wrapped example_env (returning (PInt 7)) [] example_kwargs initial))
              = posted initial @ [
                  \<lparr>uri = ''https://logging.googleapis.com/v2/entries:write'',
                   http_method = ''POST'',
                   body = \<lparr>logName = ''projects/clusterfuzz-tools/logs/client'',
                           resource_type = ''project'',
                           resource_labels = [(''project_id'', ''clusterfuzz-tools'')],
                           entries = [\<lparr>jsonPayload = p1,
                                       severity = ''INFO''\<rparr>]\<rparr>\<rparr>,
                  \<lparr>uri = ''https://logging.googleapis.com/v2/entries:write'',
                   http_method = ''POST'',
                   body = \<lparr>logName = ''projects/clusterfuzz-tools/logs/client'',
                           resource_type = ''project'',
                           resource_labels = [(''project_id'', ''clusterfuzz-tools'')],
                           entries = [\<lparr>jsonPayload = p2,
                                       severity = ''INFO''\<rparr>]\<rparr>\<rparr>]
         \<and> p1 ''success'' = None \<and> p2 ''success'' = Some (PBool True)
         \<and> p1 ''sessionId'' = Some (PStr ''bob:1478131200.5:6b1f'')
         \<and> p2 ''sessionId'' = Some (PStr ''bob:1478131200.5:6b1f'')
         \<and> p1 ''command'' = Some (PStr ''reproduce'')
         \<and> p2 ''command'' = Some (PStr ''reproduce'')
         \<and> CHR ''.'' \<notin> set ''reproduce''
         \<and> (\<exists>pre. ''clusterfuzz.commands.reproduce'' = pre @ ''reproduce''
                  \<and> (pre = [] \<or> last pre = CHR ''.''))"
proof -
  let ?f = "returning (PInt 7)"
  let ?s1 = "snd (call_send_start example_env ?f [] example_kwargs initial)"
  let ?s2 = "snd (call_func ?f [] example_kwargs ?s1)"
  let ?s3 = "snd (call_send_success example_env ?f [] example_kwargs ?s2)"
  have 1: "call_send_start example_env ?f [] example_kwargs initial = (Inr (), ?s1)"
    by (simp add: prod_eq_iff run_defs example_defs)
  have 2: "call_func ?f [] example_kwargs ?s1 = (Inr (), ?s2)"
    by (simp add: prod_eq_iff call_func_def returning_def)
  have 3: "call_send_success example_env ?f [] example_kwargs ?s2 = (Inr (), ?s3)"
    by (simp add: prod_eq_iff run_defs example_defs)
  from log_success_two_events [OF 1 2 3] show ?thesis
    by (simp add: example_command example_module get_session_id_def example_env_def)
qed

section \<open>A wrapped function that raises\<close>

text \<open>
  Claim C2, as amended. When the wrapped function raises an exception \<open>e\<close> that is neither
  a user interrupt nor of the expected category (\<open>category e = Other\<close>) and the sends
  succeed, the decorator posts exactly two events: the start event, then a failure event
  whose record has \<^verbatim>\<open>success\<close> false, the class name of \<open>e\<close> under \<^verbatim>\<open>exception\<close> and a
  message ending in a new line followed by the stack trace, which is not empty. The caller
  then sees \<open>e\<close> itself raised.

  As stated, for every exception that is not of the expected category, the claim fails for
  a user interrupt: in the counterexample the function raises \<^verbatim>\<open>KeyboardInterrupt\<close>, both
  events are posted, and the caller sees the process exit with status 1, not the
  exception.
\<close>

theorem log_failure_two_events:
  assumes start: "call_send_start env f args kwargs s = (Inr (), s1)"
    and func: "call_func f args kwargs s1 = (Inl e, s2)"
    and other: "category e = Other"
    and failure: "call_send_failure env f e args kwargs s2 = (Inr (), s3)"
  shows "\<exists>p1 p2 msg. posted (snd (wrapped env f args kwargs s))
                   = posted s @ [
                       \<lparr>uri = ''https://logging.googleapis.com/v2/entries:write'',
                        http_method = ''POST'',
                        body = \<lparr>logName = ''projects/clusterfuzz-tools/logs/client'',
                                resource_type = ''project'',
                                resource_labels = [(''project_id'', ''clusterfuzz-tools'')],
                                entries = [\<lparr>jsonPayload = p1,
                                            severity = ''INFO''\<rparr>]\<rparr>\<rparr>,

                                     \<lparr>uri = ''https://logging.googleapis.com/v2/entries:write'',
                                      http_method = ''POST'',
                                      body = \<lparr>logName = ''projects/clusterfuzz-tools/logs/client'',
                                              resource_type = ''project'',
                                              resource_labels = [(''project_id'', ''clusterfuzz-tools'')],
                                              entries = [\<lparr>jsonPayload = p2,
                                                          severity = ''ERROR''\<rparr>]\<rparr>\<rparr>]
           \<and> p1 ''success'' = None \<and> p2 ''success'' = Some (PBool False)
           \<and> p2 ''exception'' = Some (PStr (class_name e))
           \<and> format_exc env e \<noteq> []
           \<and> p2 ''message'' = Some (PStr (msg @ [CHR 0x0A] @ format_exc env e))
           \<and> fst (wrapped env f args kwargs s) = Raise e"
proof -
  from call_send_start_returns [OF start] obtain p1 where
    s1: "posted s1 = posted s @ [
        \<lparr>uri = ''https://logging.googleapis.com/v2/entries:write'',
         http_method = ''POST'',
         body = \<lparr>logName = ''projects/clusterfuzz-tools/logs/client'',
                 resource_type = ''project'',
                 resource_labels = [(''project_id'', ''clusterfuzz-tools'')],
                 entries = [\<lparr>jsonPayload = p1,
                             severity = ''INFO''\<rparr>]\<rparr>\<rparr>]" and p1: "p1 ''success'' = None"
    by auto
  from call_func_result [OF func] have s2: "posted s2 = posted s1" by simp
  from call_send_failure_returns [OF failure] obtain p2 msg where
    s3: "posted s3 = posted s2 @ [
        \<lparr>uri = ''https://logging.googleapis.com/v2/entries:write'',
         http_method = ''POST'',
         body = \<lparr>logName = ''projects/clusterfuzz-tools/logs/client'',
                 resource_type = ''project'',
                 resource_labels = [(''project_id'', ''clusterfuzz-tools'')],
                 entries = [\<lparr>jsonPayload = p2,
                             severity = ''ERROR''\<rparr>]\<rparr>\<rparr>]"
    and p2: "p2 ''success'' = Some (PBool False)" "p2 ''exception'' = Some (PStr (class_name e))"
      "p2 ''message'' = Some (PStr (msg @ [CHR 0x0A] @ format_exc env e))"
    by auto
  have "try_body env f args kwargs s = (Inl e, s2)"
    using start func by (rule try_body_func_raises)
  then have i: "inner_try env f args kwargs s = (Inl e, s3)"
    using failure by (rule inner_try_reported)
  have "posted (snd (wrapped env f args kwargs s)) = posted s3"
    using i by (rule wrapped_of_inner_try)
  moreover have "fst (wrapped env f args kwargs s) = Raise e"
    using wrapped_of_inner_try(1) [OF i] other by (simp add: observed_def)
  ultimately show ?thesis
    using s1 s2 s3 p1 p2 format_exc_nonempty [of env e] by auto
qed

theorem log_failure_two_events_witness:
  "category value_error = Other
   \<and> (\<exists>p1 p2 msg. posted (snd (wrapped example_env (raising value_error) [] example_kwargs initial))
                   = posted initial @ [
                       \<lparr>uri = ''https://logging.googleapis.com/v2/entries:write'',
                        http_method = ''POST'',
                        body = \<lparr>logName = ''projects/clusterfuzz-tools/logs/client'',
                                resource_type = ''project'',
                                resource_labels = [(''project_id'', ''clusterfuzz-tools'')],
                                entries = [\<lparr>jsonPayload = p1,
                                            severity = ''INFO''\<rparr>]\<rparr>\<rparr>,

                                     \<lparr>uri = ''https://logging.googleapis.com/v2/entries:write'',
                                      http_method = ''POST'',
                                      body = \<lparr>logName = ''projects/clusterfuzz-tools/logs/client'',
                                              resource_type = ''project'',
                                              resource_labels = [(''project_id'', ''clusterfuzz-tools'')],
                                              entries = [\<lparr>jsonPayload = p2,
                                                          severity = ''ERROR''\<rparr>]\<rparr>\<rparr>]
           \<and> p1 ''success'' = None \<and> p2 ''success'' = Some (PBool False)
           \<and> p2 ''exception'' = Some (PStr ''ValueError'')
           \<and> format_exc example_env value_error \<noteq> []
           \<and> p2 ''message'' = Some (PStr (msg @ [CHR 0x0A] @ format_exc example_env value_error))
           \<and> fst (wrapped example_env (raising value_error) [] example_kwargs initial) = Raise value_error)"
proof -
  let ?f = "raising value_error"
  let ?s1 = "snd (call_send_start example_env ?f [] example_kwargs initial)"
  let ?s2 = "snd (call_func ?f [] example_kwargs ?s1)"
  let ?s3 = "snd (call_send_failure example_env ?f value_error [] example_kwargs ?s2)"
  have 1: "call_send_start example_env ?f [] example_kwargs initial = (Inr (), ?s1)"
    by (simp add: prod_eq_iff run_defs example_defs)
  have 2: "call_func ?f [] example_kwargs ?s1 = (Inl value_error, ?s2)"
    by (simp add: prod_eq_iff call_func_def raising_def)
  have 3: "category value_error = Other"
    by (simp add: value_error_def)
  have 4: "call_send_failure example_env ?f value_error [] example_kwargs ?s2 = (Inr (), ?s3)"
    by (simp add: prod_eq_iff run_defs example_defs)
  have 5: "class_name value_error = ''ValueError''"
    by (simp add: value_error_def)
  from log_failure_two_events [OF 1 2 3 4] 3 5 show ?thesis
    by simp
qed

theorem log_failure_two_events_counterexample:
  "run (raising interrupt) [] example_kwargs = Inl interrupt
   \<and> category interrupt \<noteq> ExpectedException
   \<and> length (posted (snd (wrapped example_env (raising interrupt) [] example_kwargs initial))) = 2
   \<and> fst (wrapped example_env (raising interrupt) [] example_kwargs initial) = Exit 1
   \<and> Exit 1 \<noteq> Raise interrupt"
  by (simp add: run_defs example_defs)

section \<open>A wrapped function that raises an expected exception\<close>

text \<open>
  Claim C3, as amended. When the wrapped function raises a user interrupt or an exception
  of the expected category, and the call of \<open>send_failure\<close> that reports it returns, the
  wrapped callable logs one short line (class name and message) and ends the process with
  exit status 1; the exception does not reach the caller.

  As stated, without the condition on \<open>send_failure\<close>, the claim fails: the counterexample
  is a run in which the function raises \<^verbatim>\<open>KeyboardInterrupt\<close>, the POST of the failure
  event raises a network error, and the caller sees that error raised instead of an exit.
\<close>

theorem expected_exception_exits:
  assumes start: "call_send_start env f args kwargs s = (Inr (), s1)"
    and func: "call_func f args kwargs s1 = (Inl e, s2)"
    and expected: "category e = KeyboardInterrupt \<or> category e = ExpectedException"
    and failure: "call_send_failure env f e args kwargs s2 = (Inr (), s3)"
  shows "fst (wrapped env f args kwargs s) = Exit 1
         \<and> logged (snd (wrapped env f args kwargs s)) = logged s @ [class_name e @ '': '' @ message e]"
proof -
  have "try_body env f args kwargs s = (Inl e, s2)"
    using start func by (rule try_body_func_raises)
  then have i: "inner_try env f args kwargs s = (Inl e, s3)"
    using failure by (rule inner_try_reported)
  have "logged s3 = logged s"
    using inner_try_frame [of env f args kwargs s] i by simp
  with wrapped_of_inner_try(1,5) [OF i] expected show ?thesis
    by (auto simp: observed_def)
qed

theorem expected_exception_exits_witness:
  "category interrupt = KeyboardInterrupt
   \<and> run (raising interrupt) [] example_kwargs = Inl interrupt
   \<and> fst (wrapped example_env (raising interrupt) [] example_kwargs initial) = Exit 1
   \<and> logged (snd (wrapped example_env (raising interrupt) [] example_kwargs initial))
        = [''KeyboardInterrupt: '']"
proof -
  let ?f = "raising interrupt"
  let ?s1 = "snd (call_send_start example_env ?f [] example_kwargs initial)"
  let ?s2 = "snd (call_func ?f [] example_kwargs ?s1)"
  let ?s3 = "snd (call_send_failure example_env ?f interrupt [] example_kwargs ?s2)"
  have 1: "call_send_start example_env ?f [] example_kwargs initial = (Inr (), ?s1)"
    by (simp add: prod_eq_iff run_defs example_defs)
  have 2: "call_func ?f [] example_kwargs ?s1 = (Inl interrupt, ?s2)"
    by (simp add: prod_eq_iff call_func_def raising_def)
  have 3: "category interrupt = KeyboardInterrupt \<or> category interrupt = ExpectedException"
    by (simp add: interrupt_def)
  have 4: "call_send_failure example_env ?f interrupt [] example_kwargs ?s2 = (Inr (), ?s3)"
    by (simp add: prod_eq_iff run_defs example_defs)
  from expected_exception_exits [OF 1 2 3 4] show ?thesis
    by (simp add: interrupt_def raising_def initial_def)
qed

theorem expected_exception_exits_counterexample:
  "run (raising interrupt) [] example_kwargs = Inl interrupt
   \<and> invocations (snd (wrapped (failing_env never (only_at 1 not_found)) (raising interrupt)
                        [] example_kwargs initial)) = [([], example_kwargs)]
   \<and> fst (wrapped (failing_env never (only_at 1 not_found)) (raising interrupt)
             [] example_kwargs initial) = Raise not_found
   \<and> Raise not_found \<noteq> Exit 1"
  by (simp add: run_defs example_defs)

text \<open>
  Claim C9, as amended. When the wrapped function raises a user interrupt or an exception
  of the expected category, and the call of \<open>send_failure\<close> returns, the failure event
  (\<^verbatim>\<open>success\<close> false, the class name under \<^verbatim>\<open>exception\<close>) is posted after the start event
  and the process then exits with status 1: the handling of expected exceptions does not
  suppress the report.

  As stated, for every such run, the claim fails: in the counterexample the function raises
  an \<^verbatim>\<open>ExpectedException\<close>, the POST of the failure event is interrupted by the user, and
  the process exits with status 1 with the start event as the only event sent.
\<close>

theorem expected_exception_reported:
  assumes start: "call_send_start env f args kwargs s = (Inr (), s1)"
    and func: "call_func f args kwargs s1 = (Inl e, s2)"
    and expected: "category e = KeyboardInterrupt \<or> category e = ExpectedException"
    and failure: "call_send_failure env f e args kwargs s2 = (Inr (), s3)"
  shows "\<exists>p1 p2. posted (snd (wrapped env f args kwargs s))
                   = posted s @ [
                       \<lparr>uri = ''https://logging.googleapis.com/v2/entries:write'',
                        http_method = ''POST'',
                        body = \<lparr>logName = ''projects/clusterfuzz-tools/logs/client'',
                                resource_type = ''project'',
                                resource_labels = [(''project_id'', ''clusterfuzz-tools'')],
                                entries = [\<lparr>jsonPayload = p1,
                                            severity = ''INFO''\<rparr>]\<rparr>\<rparr>,

                                     \<lparr>uri = ''https://logging.googleapis.com/v2/entries:write'',
                                      http_method = ''POST'',
                                      body = \<lparr>logName = ''projects/clusterfuzz-tools/logs/client'',
                                              resource_type = ''project'',
                                              resource_labels = [(''project_id'', ''clusterfuzz-tools'')],
                                              entries = [\<lparr>jsonPayload = p2,
                                                          severity = ''ERROR''\<rparr>]\<rparr>\<rparr>]
           \<and> p1 ''success'' = None \<and> p2 ''success'' = Some (PBool False)
           \<and> p2 ''exception'' = Some (PStr (class_name e))
           \<and> fst (wrapped env f args kwargs s) = Exit 1"
proof -
  from call_send_start_returns [OF start] obtain p1 where
    s1: "posted s1 = posted s @ [
        \<lparr>uri = ''https://logging.googleapis.com/v2/entries:write'',
         http_method = ''POST'',
         body = \<lparr>logName = ''projects/clusterfuzz-tools/logs/client'',
                 resource_type = ''project'',
                 resource_labels = [(''project_id'', ''clusterfuzz-tools'')],
                 entries = [\<lparr>jsonPayload = p1,
                             severity = ''INFO''\<rparr>]\<rparr>\<rparr>]" and p1: "p1 ''success'' = None"
    by auto
  from call_func_result [OF func] have s2: "posted s2 = posted s1" by simp
  from call_send_failure_returns [OF failure] obtain p2 where
    s3: "posted s3 = posted s2 @ [
        \<lparr>uri = ''https://logging.googleapis.com/v2/entries:write'',
         http_method = ''POST'',
         body = \<lparr>logName = ''projects/clusterfuzz-tools/logs/client'',
                 resource_type = ''project'',
                 resource_labels = [(''project_id'', ''clusterfuzz-tools'')],
                 entries = [\<lparr>jsonPayload = p2,
                             severity = ''ERROR''\<rparr>]\<rparr>\<rparr>]"
    and p2: "p2 ''success'' = Some (PBool False)" "p2 ''exception'' = Some (PStr (class_name e))"
    by auto
  have "try_body env f args kwargs s = (Inl e, s2)"
    using start func by (rule try_body_func_raises)
  then have i: "inner_try env f args kwargs s = (Inl e, s3)"
    using failure by (rule inner_try_reported)
  have "posted (snd (wrapped env f args kwargs s)) = posted s3"
    using i by (rule wrapped_of_inner_try)
  moreover have "fst (wrapped env f args kwargs s) = Exit 1"
    using wrapped_of_inner_try(1) [OF i] expected by (auto simp: observed_def)
  ultimately show ?thesis
    using s1 s2 s3 p1 p2 by auto
qed

theorem expected_exception_reported_witness:
  "category expected_error = ExpectedException
   \<and> (\<exists>p1 p2. posted (snd (wrapped example_env (raising expected_error) [] example_kwargs initial))
                   = posted initial @ [
                       \<lparr>uri = ''https://logging.googleapis.com/v2/entries:write'',
                        http_method = ''POST'',
                        body = \<lparr>logName = ''projects/clusterfuzz-tools/logs/client'',
                                resource_type = ''project'',
                                resource_labels = [(''project_id'', ''clusterfuzz-tools'')],
                                entries = [\<lparr>jsonPayload = p1,
                                            severity = ''INFO''\<rparr>]\<rparr>\<rparr>,

                                     \<lparr>uri = ''https://logging.googleapis.com/v2/entries:write'',
                                      http_method = ''POST'',
                                      body = \<lparr>logName = ''projects/clusterfuzz-tools/logs/client'',
                                              resource_type = ''project'',
                                              resource_labels = [(''project_id'', ''clusterfuzz-tools'')],
                                              entries = [\<lparr>jsonPayload = p2,
                                                          severity = ''ERROR''\<rparr>]\<rparr>\<rparr>]
           \<and> p1 ''success'' = None \<and> p2 ''success'' = Some (PBool False)
           \<and> p2 ''exception'' = Some (PStr (class_name expected_error))
           \<and> fst (wrapped example_env (raising expected_error) [] example_kwargs initial) = Exit 1)"
proof -
  let ?f = "raising expected_error"
  let ?s1 = "snd (call_send_start example_env ?f [] example_kwargs initial)"
  let ?s2 = "snd (call_func ?f [] example_kwargs ?s1)"
  let ?s3 = "snd (call_send_failure example_env ?f expected_error [] example_kwargs ?s2)"
  have 1: "call_send_start example_env ?f [] example_kwargs initial = (Inr (), ?s1)"
    by (simp add: prod_eq_iff run_defs example_defs)
  have 2: "call_func ?f [] example_kwargs ?s1 = (Inl expected_error, ?s2)"
    by (simp add: prod_eq_iff call_func_def raising_def)
  have 3: "category expected_error = KeyboardInterrupt \<or> category expected_error = ExpectedException"
    by (simp add: expected_error_def)
  have 4: "call_send_failure example_env ?f expected_error [] example_kwargs ?s2 = (Inr (), ?s3)"
    by (simp add: prod_eq_iff run_defs example_defs expected_error_def)
  have 5: "category expected_error = ExpectedException"
    by (simp add: expected_error_def)
  from expected_exception_reported [OF 1 2 3 4] 5 show ?thesis
    by simp
qed

theorem expected_exception_reported_counterexample:
  "run (raising expected_error) [] example_kwargs = Inl expected_error
   \<and> category expected_error = ExpectedException
   \<and> invocations (snd (wrapped (failing_env never (only_at 1 interrupt)) (raising expected_error)
                        [] example_kwargs initial)) = [([], example_kwargs)]
   \<and> fst (wrapped (failing_env never (only_at 1 interrupt)) (raising expected_error)
             [] example_kwargs initial) = Exit 1
   \<and> length (payloads (snd (wrapped (failing_env never (only_at 1 interrupt))
                (raising expected_error) [] example_kwargs initial))) = 1
   \<and> (payloads (snd (wrapped (failing_env never (only_at 1 interrupt))
                (raising expected_error) [] example_kwargs initial)) ! 0) ''success'' = None"
  by (simp add: run_defs example_defs expected_error_def payloads_def post_def structure_of_def)

section \<open>Sends that raise\<close>

lemma observed_not_Return: "observed e \<noteq> Return v"
  by (simp add: observed_def)

text \<open>
  Claim C5, as amended. An exception raised while an event is sent is never swallowed.
  One raised by the start send or by the success send is caught by the inner handler,
  which reports it with a failure event, and is raised again once that report returns.
  One raised by the failure send itself leaves the handler in place of the exception being
  reported, whatever that was (a failure of the wrapped function is masked by it). In each
  case the caller sees the exception that leaves the inner handler raised, or an exit with
  status 1 when it is a user interrupt or of the expected category.

  As stated, for every exception raised while sending, the claim fails: in the
  counterexample the success send raises a timeout, the failure send that reports it
  raises a second error, and the caller sees the second one; the first never reaches it.
\<close>

theorem send_exceptions_surface:
  "(call_send_start env f args kwargs s = (Inl e, s1)
      \<and> call_send_failure env f e args kwargs s1 = (Inr (), s2)
      \<longrightarrow> fst (wrapped env f args kwargs s) = observed e)
   \<and> (call_send_start env f args kwargs s = (Inr (), t1)
      \<and> call_func f args kwargs t1 = (Inr (), t2)
      \<and> call_send_success env f args kwargs t2 = (Inl e', t3)
      \<and> call_send_failure env f e' args kwargs t3 = (Inr (), t4)
      \<longrightarrow> fst (wrapped env f args kwargs s) = observed e')
   \<and> (try_body env f args kwargs s = (Inl e0, u1)
      \<and> call_send_failure env f e0 args kwargs u1 = (Inl x, u2)
      \<longrightarrow> fst (wrapped env f args kwargs s) = observed x)"
proof (intro conjI impI)
  assume a: "call_send_start env f args kwargs s = (Inl e, s1)
      \<and> call_send_failure env f e args kwargs s1 = (Inr (), s2)"
  then have "try_body env f args kwargs s = (Inl e, s1)"
    by (simp add: try_body_start_raises)
  with a have "inner_try env f args kwargs s = (Inl e, s2)"
    by (simp add: inner_try_reported)
  from wrapped_of_inner_try(1) [OF this] show "fst (wrapped env f args kwargs s) = observed e"
    by simp
next
  assume a: "call_send_start env f args kwargs s = (Inr (), t1)
      \<and> call_func f args kwargs t1 = (Inr (), t2)
      \<and> call_send_success env f args kwargs t2 = (Inl e', t3)
      \<and> call_send_failure env f e' args kwargs t3 = (Inr (), t4)"
  then have "try_body env f args kwargs s = (Inl e', t3)"
    using try_body_func_returns [of env f args kwargs s "()" t1 "()" t2] by simp
  with a have "inner_try env f args kwargs s = (Inl e', t4)"
    by (simp add: inner_try_reported)
  from wrapped_of_inner_try(1) [OF this] show "fst (wrapped env f args kwargs s) = observed e'"
    by simp
next
  assume a: "try_body env f args kwargs s = (Inl e0, u1)
      \<and> call_send_failure env f e0 args kwargs u1 = (Inl x, u2)"
  then have "inner_try env f args kwargs s = (Inl x, u2)"
    by (simp add: inner_try_masked)
  from wrapped_of_inner_try(1) [OF this] show "fst (wrapped env f args kwargs s) = observed x"
    by simp
qed

theorem send_exceptions_surface_witness:
  "run (raising value_error) [] example_kwargs = Inl value_error
   \<and> fst (call_send_failure (failing_env never (only_at 1 not_found)) (raising value_error)
            value_error [] example_kwargs
            (snd (try_body (failing_env never (only_at 1 not_found)) (raising value_error)
                    [] example_kwargs initial))) = Inl not_found
   \<and> fst (wrapped (failing_env never (only_at 1 not_found)) (raising value_error)
            [] example_kwargs initial) = Raise not_found"
proof -
  let ?env = "failing_env never (only_at 1 not_found)"
  let ?f = "raising value_error"
  let ?u1 = "snd (try_body ?env ?f [] example_kwargs initial)"
  let ?u2 = "snd (call_send_failure ?env ?f value_error [] example_kwargs ?u1)"
  have 1: "try_body ?env ?f [] example_kwargs initial = (Inl value_error, ?u1)"
    by (simp add: prod_eq_iff run_defs example_defs)
  have 2: "fst (call_send_failure ?env ?f value_error [] example_kwargs ?u1) = Inl not_found"
    by (simp add: run_defs example_defs)
  then have 5: "call_send_failure ?env ?f value_error [] example_kwargs ?u1 = (Inl not_found, ?u2)"
    by (simp add: prod_eq_iff)
  have 3: "observed not_found = Raise not_found"
    by (simp add: observed_def not_found_def)
  have 4: "run ?f [] example_kwargs = Inl value_error"
    by (simp add: raising_def)
  from send_exceptions_surface [of ?env ?f "[]" example_kwargs initial _ _ _ _ _ _ _ _ value_error ?u1 not_found ?u2]
    1 5 3
  have "fst (wrapped ?env ?f [] example_kwargs initial) = Raise not_found"
    by simp
  with 2 4 show ?thesis
    by blast
qed

theorem send_exceptions_surface_counterexample:
  "fst (call_send_success (failing_env never ((only_at 1 timed_out)(2 := Some not_found)))
          (returning (PInt 7)) [] example_kwargs
          (snd (call_func (returning (PInt 7)) [] example_kwargs
             (snd (call_send_start (failing_env never ((only_at 1 timed_out)(2 := Some not_found)))
                     (returning (PInt 7)) [] example_kwargs initial))))) = Inl timed_out
   \<and> fst (wrapped (failing_env never ((only_at 1 timed_out)(2 := Some not_found)))
            (returning (PInt 7)) [] example_kwargs initial) = Raise not_found
   \<and> Raise not_found \<noteq> Raise timed_out"
  by (simp add: run_defs example_defs)

text \<open>
  Claim C10, as amended. When sending the start event raises an exception, the wrapped
  function is never called and a failure event naming the class of that exception is
  attempted. When that attempt returns, the event is posted and the exception of the start
  send reaches the caller (or the process exits with status 1 when it is a user interrupt
  or of the expected category); when the attempt raises in turn, nothing is posted and its
  exception takes the place of the one from the start send.

  As stated, with the exception of the start send always reaching the caller, the claim
  fails: in the counterexample the start send cannot find the server, the failure send
  times out, and the caller sees the timeout.
\<close>

theorem start_send_raises:
  assumes start: "call_send_start env f args kwargs s = (Inl e, s1)"
  shows "invocations (snd (wrapped env f args kwargs s)) = invocations s
       \<and> (case fst (call_send_failure env f e args kwargs s1) of
            Inr u \<Rightarrow>
              fst (wrapped env f args kwargs s) = observed e
              \<and> (\<exists>p. posted (snd (wrapped env f args kwargs s))
                         = posted s @ [
                             \<lparr>uri = ''https://logging.googleapis.com/v2/entries:write'',
                              http_method = ''POST'',
                              body = \<lparr>logName = ''projects/clusterfuzz-tools/logs/client'',
                                      resource_type = ''project'',
                                      resource_labels = [(''project_id'', ''clusterfuzz-tools'')],
                                      entries = [\<lparr>jsonPayload = p,
                                                  severity = ''ERROR''\<rparr>]\<rparr>\<rparr>]
                    \<and> p ''success'' = Some (PBool False)
                    \<and> p ''exception'' = Some (PStr (class_name e)))
          | Inl x \<Rightarrow>
              fst (wrapped env f args kwargs s) = observed x
              \<and> posted (snd (wrapped env f args kwargs s)) = posted s)"
proof -
  have t: "try_body env f args kwargs s = (Inl e, s1)"
    using start by (rule try_body_start_raises)
  have s1: "posted s1 = posted s" "invocations s1 = invocations s"
    using call_send_raises(1) [OF start] call_send_start_frame [of env f args kwargs s] start
    by simp_all
  obtain r s2 where fl: "call_send_failure env f e args kwargs s1 = (r, s2)"
    by force
  have inv: "invocations s2 = invocations s1"
    using call_send_failure_frame [of env f e args kwargs s1] fl by simp
  show ?thesis
  proof (cases r)
    case (Inr u)
    with fl have fl': "call_send_failure env f e args kwargs s1 = (Inr (), s2)" by simp
    from t fl' have i: "inner_try env f args kwargs s = (Inl e, s2)"
      by (rule inner_try_reported)
    from call_send_failure_returns [OF fl'] obtain p where
      "posted s2 = posted s1 @ [
          \<lparr>uri = ''https://logging.googleapis.com/v2/entries:write'',
           http_method = ''POST'',
           body = \<lparr>logName = ''projects/clusterfuzz-tools/logs/client'',
                   resource_type = ''project'',
                   resource_labels = [(''project_id'', ''clusterfuzz-tools'')],
                   entries = [\<lparr>jsonPayload = p,
                               severity = ''ERROR''\<rparr>]\<rparr>\<rparr>]"
      "p ''success'' = Some (PBool False)" "p ''exception'' = Some (PStr (class_name e))"
      by auto
    with wrapped_of_inner_try(1,2,3) [OF i] s1 inv fl' show ?thesis
      by auto
  next
    case (Inl x)
    with fl have fl': "call_send_failure env f e args kwargs s1 = (Inl x, s2)" by simp
    from t fl' have i: "inner_try env f args kwargs s = (Inl x, s2)"
      by (rule inner_try_masked)
    from wrapped_of_inner_try(1,2,3) [OF i] s1 inv fl' call_send_raises(3) [OF fl']
    show ?thesis by simp
  qed
qed

theorem start_send_raises_witness:
  "fst (call_send_start (failing_env never (only_at 0 not_found)) (returning (PInt 7))
          [] example_kwargs initial) = Inl not_found
   \<and> invocations (snd (wrapped (failing_env never (only_at 0 not_found)) (returning (PInt 7))
          [] example_kwargs initial)) = []
   \<and> fst (wrapped (failing_env never (only_at 0 not_found)) (returning (PInt 7))
          [] example_kwargs initial) = Raise not_found
   \<and> (\<exists>p. posted (snd (wrapped (failing_env never (only_at 0 not_found)) (returning (PInt 7))
                  [] example_kwargs initial))
             = [
                 \<lparr>uri = ''https://logging.googleapis.com/v2/entries:write'',
                  http_method = ''POST'',
                  body = \<lparr>logName = ''projects/clusterfuzz-tools/logs/client'',
                          resource_type = ''project'',
                          resource_labels = [(''project_id'', ''clusterfuzz-tools'')],
                          entries = [\<lparr>jsonPayload = p,
                                      severity = ''ERROR''\<rparr>]\<rparr>\<rparr>]
          \<and> p ''success'' = Some (PBool False)
          \<and> p ''exception'' = Some (PStr ''ServerNotFoundError''))"
proof -
  let ?env = "failing_env never (only_at 0 not_found)"
  let ?f = "returning (PInt 7)"
  let ?s1 = "snd (call_send_start ?env ?f [] example_kwargs initial)"
  have 0: "fst (call_send_start ?env ?f [] example_kwargs initial) = Inl not_found"
    by (simp add: run_defs example_defs)
  then have 1: "call_send_start ?env ?f [] example_kwargs initial = (Inl not_found, ?s1)"
    by (simp add: prod_eq_iff)
  have 2: "fst (call_send_failure ?env ?f not_found [] example_kwargs ?s1) = Inr ()"
    by (simp add: run_defs example_defs)
  have 3: "observed not_found = Raise not_found" "class_name not_found = ''ServerNotFoundError''"
    by (simp_all add: observed_def not_found_def)
  have 4: "invocations initial = []" "posted initial = []"
    by (simp_all add: initial_def)
  from start_send_raises [OF 1] 2 3 4
  have "invocations (snd (wrapped ?env ?f [] example_kwargs initial)) = []
   \<and> fst (wrapped ?env ?f [] example_kwargs initial) = Raise not_found
   \<and> (\<exists>p. posted (snd (wrapped ?env ?f [] example_kwargs initial))
             = [
                 \<lparr>uri = ''https://logging.googleapis.com/v2/entries:write'',
                  http_method = ''POST'',
                  body = \<lparr>logName = ''projects/clusterfuzz-tools/logs/client'',
                          resource_type = ''project'',
                          resource_labels = [(''project_id'', ''clusterfuzz-tools'')],
                          entries = [\<lparr>jsonPayload = p,
                                      severity = ''ERROR''\<rparr>]\<rparr>\<rparr>]
          \<and> p ''success'' = Some (PBool False)
          \<and> p ''exception'' = Some (PStr ''ServerNotFoundError''))"
    by simp
  with 0 show ?thesis
    by blast
qed

theorem start_send_raises_counterexample:
  "fst (call_send_start (failing_env never ((only_at 0 not_found)(1 := Some timed_out)))
          (returning (PInt 7)) [] example_kwargs initial) = Inl not_found
   \<and> category not_found = Other
   \<and> fst (wrapped (failing_env never ((only_at 0 not_found)(1 := Some timed_out)))
          (returning (PInt 7)) [] example_kwargs initial) = Raise timed_out
   \<and> Raise timed_out \<noteq> Raise not_found"
  by (simp add: run_defs example_defs)

section \<open>The message of an event\<close>

lemma message_parts:
  assumes "msg = u @ a @ pre @ b @ c @ d @ t @ e @ bt @ g @ l @ rest"
  shows "prefix (u @ a @ pre) msg" "sublist u msg" "sublist c msg" "sublist t msg"
    "sublist bt msg" "sublist l msg"
proof -
  show "prefix (u @ a @ pre) msg"
    using assms by (simp add: prefix_def)
  show "sublist u msg"
    unfolding sublist_def using assms
    by (intro exI [of _ "[]"] exI [of _ "a @ pre @ b @ c @ d @ t @ e @ bt @ g @ l @ rest"]) simp
  show "sublist c msg"
    unfolding sublist_def using assms
    by (intro exI [of _ "u @ a @ pre @ b"] exI [of _ "d @ t @ e @ bt @ g @ l @ rest"]) simp
  show "sublist t msg"
    unfolding sublist_def using assms
    by (intro exI [of _ "u @ a @ pre @ b @ c @ d"] exI [of _ "e @ bt @ g @ l @ rest"]) simp
  show "sublist bt msg"
    unfolding sublist_def using assms
    by (intro exI [of _ "u @ a @ pre @ b @ c @ d @ t @ e"] exI [of _ "g @ l @ rest"]) simp
  show "sublist l msg"
    unfolding sublist_def using assms
    by (intro exI [of _ "u @ a @ pre @ b @ c @ d @ t @ e @ bt @ g"] exI [of _ "rest"]) simp
qed

lemma append_stacktrace_tail:
  "append_stacktrace m st = m @ (case st of Some t \<Rightarrow> if t \<noteq> [] then CHR 0x0A # t else [] | None \<Rightarrow> [])"
  by (simp add: append_stacktrace_def split: option.splits)

lemma example_send_returns:
  "fst (send_log example_env (example_params b) st initial) = Inr ()"
  by (simp add: send_log_def format_message_def getitem_def add_metadata_entries
      example_params_entries example_env_def Let_def)

text \<open>
  Claim C4, as amended. For every record whose send returns, the message field is
  \<^verbatim>\<open><user> <prefix> running <command> with testcase=<testcase id>,
  build_type=<build type>, current=<current>, and goma=<label>\<close>. It starts with the user
  name, a space and then the prefix, which depends on the \<^verbatim>\<open>success\<close> entry alone
  (absent gives \<^verbatim>\<open>started\<close>, true \<^verbatim>\<open>successfully finished\<close>, false
  \<^verbatim>\<open>unsuccessfully finished\<close>; the witness runs one send of each kind). It contains the user, the command, the testcase id and the
  build type as literal substrings, each as \<^verbatim>\<open>%s\<close> prints it. The label after
  \<^verbatim>\<open>goma=\<close> is \<^verbatim>\<open>disabled\<close> when the goma-disable flag is true and \<^verbatim>\<open>enabled\<close>
  otherwise. A new line and the stack trace are appended exactly when a stack trace that is
  not the empty string is supplied.

  As stated the claim fails in three places, shown by the counterexample: the message
  \<^verbatim>\<open>bob started running ...\<close> starts with the user name, not with the prefix; with the
  flag false and a build type \<^verbatim>\<open>goma_disabled\<close> the message contains \<^verbatim>\<open>disabled\<close>; and
  with the empty string supplied as stack trace nothing is appended, not even the new line.
\<close>

theorem send_log_message:
  assumes "send_log env params stacktrace s = (Inr (), s')"
  shows "\<exists>p msg pre command testcaseId buildType current disableGoma.
           posted s' = posted s @ [
               \<lparr>uri = ''https://logging.googleapis.com/v2/entries:write'',
                http_method = ''POST'',
                body = \<lparr>logName = ''projects/clusterfuzz-tools/logs/client'',
                        resource_type = ''project'',
                        resource_labels = [(''project_id'', ''clusterfuzz-tools'')],
                        entries = [\<lparr>jsonPayload = p,
                                    severity = (if stacktrace = None \<or> stacktrace = Some []
                                                then ''INFO'' else ''ERROR'')\<rparr>]\<rparr>\<rparr>]
         \<and> p ''message'' = Some (PStr msg)
         \<and> params ''command'' = Some command \<and> params ''testcaseId'' = Some testcaseId
         \<and> params ''buildType'' = Some buildType \<and> params ''current'' = Some current
         \<and> params ''disableGoma'' = Some disableGoma
         \<and> pre = (case params ''success'' of
                    None \<Rightarrow> ''started''
                  | Some v \<Rightarrow> if truthy v then ''successfully finished''
                             else ''unsuccessfully finished'')
         \<and> msg = py_str (environ_get_USER env) @ '' '' @ pre
                 @ '' running '' @ py_str command
                 @ '' with testcase='' @ py_str testcaseId
                 @ '', build_type='' @ py_str buildType
                 @ '', current='' @ py_str current
                 @ '', and goma='' @ (if truthy disableGoma then ''disabled'' else ''enabled'')
                 @ (case stacktrace of
                      Some t \<Rightarrow> if t \<noteq> [] then CHR 0x0A # t else []
                    | None \<Rightarrow> [])
         \<and> prefix (py_str (environ_get_USER env) @ '' '' @ pre) msg
         \<and> sublist (py_str (environ_get_USER env)) msg \<and> sublist (py_str command) msg
         \<and> sublist (py_str testcaseId) msg \<and> sublist (py_str buildType) msg
         \<and> sublist (if truthy disableGoma then ''disabled'' else ''enabled'') msg"
proof -
  from send_log_returns [OF assms] obtain m where
    m: "format_message (add_metadata env params) (prefix_of (add_metadata env params)) = Inr m"
    and s': "s' = s\<lparr>calls := Suc (calls s),
                posted := posted s @ [post (structure_of ((add_metadata env params)
                   (''message'' \<mapsto> PStr (append_stacktrace m stacktrace))) stacktrace)]\<rparr>"
    by blast
  let ?p = "(add_metadata env params)(''message'' \<mapsto> PStr (append_stacktrace m stacktrace))"
  let ?msg = "append_stacktrace m stacktrace"
  let ?pre = "case params ''success'' of
                None \<Rightarrow> ''started''
              | Some v \<Rightarrow> if truthy v then ''successfully finished''
                         else ''unsuccessfully finished''"
  have pre: "prefix_of params = ?pre"
    by (simp add: prefix_of_def)
  from format_message_Inr [OF m] obtain command testcaseId buildType current disableGoma where
    k: "params ''command'' = Some command" "params ''testcaseId'' = Some testcaseId"
      "params ''buildType'' = Some buildType" "params ''current'' = Some current"
      "params ''disableGoma'' = Some disableGoma"
    and m': "m = py_str (environ_get_USER env) @ '' '' @ ?pre
                 @ '' running '' @ py_str command
                 @ '' with testcase='' @ py_str testcaseId
                 @ '', build_type='' @ py_str buildType
                 @ '', current='' @ py_str current
                 @ '', and goma='' @ (if truthy disableGoma then ''disabled'' else ''enabled'')"
    by (auto simp: add_metadata_entries prefix_of_add_metadata pre)
  let ?rest = "case stacktrace of Some t \<Rightarrow> if t \<noteq> [] then CHR 0x0A # t else [] | None \<Rightarrow> []"
  have msg: "?msg = py_str (environ_get_USER env) @ '' '' @ ?pre
                 @ '' running '' @ py_str command
                 @ ('' with testcase='' @ py_str testcaseId
                 @ ('', build_type='' @ py_str buildType
                 @ (('', current='' @ py_str current @ '', and goma='')
                 @ (if truthy disableGoma then ''disabled'' else ''enabled'')
                 @ ?rest)))"
    unfolding append_stacktrace_tail m' by simp
  note parts = message_parts [OF msg]
  have sev: "(if truthy_opt stacktrace then ''ERROR'' else ''INFO'')
               = (if stacktrace = None \<or> stacktrace = Some [] then ''INFO'' else ''ERROR'')"
    by (cases stacktrace) auto
  have "posted s' = posted s @ [
               \<lparr>uri = ''https://logging.googleapis.com/v2/entries:write'',
                http_method = ''POST'',
                body = \<lparr>logName = ''projects/clusterfuzz-tools/logs/client'',
                        resource_type = ''project'',
                        resource_labels = [(''project_id'', ''clusterfuzz-tools'')],
                        entries = [\<lparr>jsonPayload = ?p,
                                    severity = (if stacktrace = None \<or> stacktrace = Some []
                                                then ''INFO'' else ''ERROR'')\<rparr>]\<rparr>\<rparr>]"
    using s' sev by (simp add: post_def structure_of_def)
  moreover have "?p ''message'' = Some (PStr ?msg)"
    by simp
  moreover have "?msg = py_str (environ_get_USER env) @ '' '' @ ?pre
                 @ '' running '' @ py_str command
                 @ '' with testcase='' @ py_str testcaseId
                 @ '', build_type='' @ py_str buildType
                 @ '', current='' @ py_str current
                 @ '', and goma='' @ (if truthy disableGoma then ''disabled'' else ''enabled'')
                 @ ?rest"
    using msg by simp
  ultimately show ?thesis
    using k parts by blast
qed

theorem send_log_message_witness:
  "(payloads (snd (send_log example_env (example_params (PStr ''chromium'')) None initial)) ! 0)
      ''message''
     = Some (PStr ''bob started running reproduce with testcase=1234, build_type=chromium, current=False, and goma=enabled'')
   \<and> (payloads (snd (send_log example_env
          ((example_params (PStr ''chromium''))(''success'' \<mapsto> PBool True, ''disableGoma'' \<mapsto> PBool True))
          None initial)) ! 0) ''message''
     = Some (PStr ''bob successfully finished running reproduce with testcase=1234, build_type=chromium, current=False, and goma=disabled'')
   \<and> (payloads (snd (send_log example_env
          ((example_params (PStr ''chromium''))(''success'' \<mapsto> PBool False))
          (Some ''Traceback'') initial)) ! 0) ''message''
     = Some (PStr (''bob unsuccessfully finished running reproduce with testcase=1234, build_type=chromium, current=False, and goma=enabled''
                   @ [CHR 0x0A] @ ''Traceback''))"
proof -
  have step: "(payloads (snd (send_log example_env P st initial)) ! 0) ''message''
      = Some (PStr (''bob '' @
          (case P ''success'' of
             None \<Rightarrow> ''started''
           | Some v \<Rightarrow> if truthy v then ''successfully finished''
                      else ''unsuccessfully finished'')
          @ '' running '' @ py_str c
          @ '' with testcase='' @ py_str t
          @ '', build_type='' @ py_str b
          @ '', current='' @ py_str cu
          @ '', and goma='' @ (if truthy g then ''disabled'' else ''enabled'')
          @ (case st of Some t \<Rightarrow> if t \<noteq> [] then CHR 0x0A # t else [] | None \<Rightarrow> [])))"
    if keys: "P ''command'' = Some c" "P ''testcaseId'' = Some t" "P ''buildType'' = Some b"
      "P ''current'' = Some cu" "P ''disableGoma'' = Some g"
    for P st c t b cu g
  proof -
    let ?r = "send_log example_env P st initial"
    have "fst ?r = Inr ()"
      using keys by (simp add: send_log_complete example_env_simps)
    then have 1: "?r = (Inr (), snd ?r)"
      by (simp add: prod_eq_iff)
    from send_log_message [OF 1] obtain p msg pre command testcaseId buildType current disableGoma
      where a: "posted (snd ?r) = posted initial @ [
               \<lparr>uri = ''https://logging.googleapis.com/v2/entries:write'',
                http_method = ''POST'',
                body = \<lparr>logName = ''projects/clusterfuzz-tools/logs/client'',
                        resource_type = ''project'',
                        resource_labels = [(''project_id'', ''clusterfuzz-tools'')],
                        entries = [\<lparr>jsonPayload = p,
                                    severity = (if st = None \<or> st = Some []
                                                then ''INFO'' else ''ERROR'')\<rparr>]\<rparr>\<rparr>]"
        "p ''message'' = Some (PStr msg)"
      and k: "P ''command'' = Some command" "P ''testcaseId'' = Some testcaseId"
        "P ''buildType'' = Some buildType" "P ''current'' = Some current"
        "P ''disableGoma'' = Some disableGoma"
      and m: "pre = (case P ''success'' of
                    None \<Rightarrow> ''started''
                  | Some v \<Rightarrow> if truthy v then ''successfully finished''
                             else ''unsuccessfully finished'')"
        "msg = py_str (environ_get_USER example_env) @ '' '' @ pre
                 @ '' running '' @ py_str command
                 @ '' with testcase='' @ py_str testcaseId
                 @ '', build_type='' @ py_str buildType
                 @ '', current='' @ py_str current
                 @ '', and goma='' @ (if truthy disableGoma then ''disabled'' else ''enabled'')
                 @ (case st of
                      Some t \<Rightarrow> if t \<noteq> [] then CHR 0x0A # t else []
                    | None \<Rightarrow> [])"
      by blast
    from a(1) have "payloads (snd ?r) = [p]"
      by (simp add: payloads_def example_env_simps)
    moreover from k keys have "command = c" "testcaseId = t" "buildType = b" "current = cu"
      "disableGoma = g"
      by simp_all
    moreover have "py_str (environ_get_USER example_env) = ''bob''"
      by (simp add: environ_get_USER_def example_env_def)
    ultimately show ?thesis
      using a(2) m by simp
  qed
  have 1: "(payloads (snd (send_log example_env (example_params (PStr ''chromium'')) None initial)) ! 0)
      ''message''
     = Some (PStr ''bob started running reproduce with testcase=1234, build_type=chromium, current=False, and goma=enabled'')"
    using step [of "example_params (PStr ''chromium'')" "PStr ''reproduce''" "PStr ''1234''"
        "PStr ''chromium''" "PBool False" "PBool False" None]
    by (simp add: example_params_entries)
  have 2: "(payloads (snd (send_log example_env
          ((example_params (PStr ''chromium''))(''success'' \<mapsto> PBool True, ''disableGoma'' \<mapsto> PBool True))
          None initial)) ! 0) ''message''
     = Some (PStr ''bob successfully finished running reproduce with testcase=1234, build_type=chromium, current=False, and goma=disabled'')"
    using step [of "(example_params (PStr ''chromium''))(''success'' \<mapsto> PBool True, ''disableGoma'' \<mapsto> PBool True)"
        "PStr ''reproduce''" "PStr ''1234''" "PStr ''chromium''" "PBool False" "PBool True" None]
    by (simp add: example_params_entries)
  have 3: "(payloads (snd (send_log example_env
          ((example_params (PStr ''chromium''))(''success'' \<mapsto> PBool False))
          (Some ''Traceback'') initial)) ! 0) ''message''
     = Some (PStr (''bob unsuccessfully finished running reproduce with testcase=1234, build_type=chromium, current=False, and goma=enabled''
                   @ [CHR 0x0A] @ ''Traceback''))"
    using step [of "(example_params (PStr ''chromium''))(''success'' \<mapsto> PBool False)"
        "PStr ''reproduce''" "PStr ''1234''" "PStr ''chromium''" "PBool False" "PBool False"
        "Some ''Traceback''"]
    by (simp add: example_params_entries)
  from 1 2 3 show ?thesis
    by blast
qed

theorem send_log_message_counterexample:
  "(payloads (snd (send_log example_env (example_params (PStr ''chromium'')) None initial)) ! 0)
      ''message''
     = Some (PStr ''bob started running reproduce with testcase=1234, build_type=chromium, current=False, and goma=enabled'')
   \<and> \<not> prefix ''started''
        ''bob started running reproduce with testcase=1234, build_type=chromium, current=False, and goma=enabled''
   \<and> example_params (PStr ''goma_disabled'') ''disableGoma'' = Some (PBool False)
   \<and> (payloads (snd (send_log example_env (example_params (PStr ''goma_disabled'')) None initial)) ! 0)
      ''message''
     = Some (PStr ''bob started running reproduce with testcase=1234, build_type=goma_disabled, current=False, and goma=enabled'')
   \<and> sublist ''disabled''
        ''bob started running reproduce with testcase=1234, build_type=goma_disabled, current=False, and goma=enabled''
   \<and> (payloads (snd (send_log example_env (example_params (PStr ''chromium'')) (Some []) initial)) ! 0)
      ''message''
     = Some (PStr ''bob started running reproduce with testcase=1234, build_type=chromium, current=False, and goma=enabled'')"
proof -
  have "sublist ''disabled''
          (''bob started running reproduce with testcase=1234, build_type=goma_''
           @ ''disabled'' @ '', current=False, and goma=enabled'')"
    by (rule sublist_appendI)
  then have "sublist ''disabled''
        ''bob started running reproduce with testcase=1234, build_type=goma_disabled, current=False, and goma=enabled''"
    by simp
  then show ?thesis
    by (simp add: send_log_def format_message_def getitem_def add_metadata_entries
        example_params_entries example_env_def Let_def payloads_def post_def structure_of_def
        prefix_of_def environ_get_USER_def add_metadata_def append_stacktrace_def initial_def)
qed

section \<open>The envelope posted\<close>

text \<open>
  Claim C6, as amended. For every call of \<open>send_log\<close> whose POST returns, the request is a
  POST to the \<^verbatim>\<open>entries:write\<close> endpoint whose body has the fixed log name
  \<^verbatim>\<open>projects/clusterfuzz-tools/logs/client\<close>, the resource type \<^verbatim>\<open>project\<close> with the fixed
  project id label, and exactly one entry. The \<^verbatim>\<open>jsonPayload\<close> of the entry is the record
  passed in, with the fields \<^verbatim>\<open>version\<close>, \<^verbatim>\<open>user\<close>, \<^verbatim>\<open>sessionId\<close> and
  \<^verbatim>\<open>message\<close> set by the sender; its severity is \<^verbatim>\<open>ERROR\<close> if and only if a stack trace
  that is not the empty string was supplied, and \<^verbatim>\<open>INFO\<close> otherwise.

  As stated, with any supplied stack trace giving \<^verbatim>\<open>ERROR\<close>, the claim fails: in the
  counterexample the empty string is supplied and the severity is \<^verbatim>\<open>INFO\<close>.
\<close>

theorem send_log_envelope:
  assumes "send_log env params stacktrace s = (Inr (), s')"
  shows "\<exists>p. posted s' = posted s @
               [\<lparr>uri = ''https://logging.googleapis.com/v2/entries:write'',
                 http_method = ''POST'',
                 body = \<lparr>logName = ''projects/clusterfuzz-tools/logs/client'',
                         resource_type = ''project'',
                         resource_labels = [(''project_id'', ''clusterfuzz-tools'')],
                         entries = [\<lparr>jsonPayload = p,
                                     severity = (if stacktrace = None \<or> stacktrace = Some []
                                                 then ''INFO'' else ''ERROR'')\<rparr>]\<rparr>\<rparr>]
         \<and> (\<forall>k. k \<notin> {''version'', ''user'', ''sessionId'', ''message''} \<longrightarrow> p k = params k)
         \<and> p ''version'' = Some (PStr (get_version env))
         \<and> p ''user'' = Some (environ_get_USER env)
         \<and> p ''sessionId'' = Some (PStr (get_session_id env))
         \<and> (\<exists>msg. p ''message'' = Some (PStr msg))"
proof -
  from send_log_returns [OF assms] obtain m where
    s': "s' = s\<lparr>calls := Suc (calls s),
                posted := posted s @ [post (structure_of ((add_metadata env params)
                   (''message'' \<mapsto> PStr (append_stacktrace m stacktrace))) stacktrace)]\<rparr>"
    by blast
  let ?p = "(add_metadata env params)(''message'' \<mapsto> PStr (append_stacktrace m stacktrace))"
  have sev: "(if truthy_opt stacktrace then ''ERROR'' else ''INFO'')
               = (if stacktrace = None \<or> stacktrace = Some [] then ''INFO'' else ''ERROR'')"
    by (cases stacktrace) auto
  have "posted s' = posted s @
               [\<lparr>uri = ''https://logging.googleapis.com/v2/entries:write'',
                 http_method = ''POST'',
                 body = \<lparr>logName = ''projects/clusterfuzz-tools/logs/client'',
                         resource_type = ''project'',
                         resource_labels = [(''project_id'', ''clusterfuzz-tools'')],
                         entries = [\<lparr>jsonPayload = ?p,
                                     severity = (if stacktrace = None \<or> stacktrace = Some []
                                                 then ''INFO'' else ''ERROR'')\<rparr>]\<rparr>\<rparr>]"
    using s' sev by (simp add: post_def structure_of_def)
  moreover have "\<forall>k. k \<notin> {''version'', ''user'', ''sessionId'', ''message''} \<longrightarrow> ?p k = params k"
    by (simp add: add_metadata_def)
  moreover have "?p ''version'' = Some (PStr (get_version env))"
    "?p ''user'' = Some (environ_get_USER env)"
    "?p ''sessionId'' = Some (PStr (get_session_id env))"
    "\<exists>msg. ?p ''message'' = Some (PStr msg)"
    by (simp_all add: add_metadata_def)
  ultimately show ?thesis
    by blast
qed

theorem send_log_envelope_witness:
  "fst (send_log example_env (example_params (PStr ''chromium''))
          (Some ''Traceback (most recent call last):'') initial) = Inr ()
   \<and> (\<exists>p. posted (snd (send_log example_env (example_params (PStr ''chromium''))
                         (Some ''Traceback (most recent call last):'') initial)) =
               [\<lparr>uri = ''https://logging.googleapis.com/v2/entries:write'',
                 http_method = ''POST'',
                 body = \<lparr>logName = ''projects/clusterfuzz-tools/logs/client'',
                         resource_type = ''project'',
                         resource_labels = [(''project_id'', ''clusterfuzz-tools'')],
                         entries = [\<lparr>jsonPayload = p, severity = ''ERROR''\<rparr>]\<rparr>\<rparr>]
          \<and> p ''testcaseId'' = Some (PStr ''1234''))"
proof -
  let ?r = "send_log example_env (example_params (PStr ''chromium''))
              (Some ''Traceback (most recent call last):'') initial"
  have 0: "fst ?r = Inr ()"
    by (rule example_send_returns)
  then have 1: "?r = (Inr (), snd ?r)"
    by (simp add: prod_eq_iff)
  from send_log_envelope [OF 1] obtain p where
    a: "posted (snd ?r) = posted initial @
               [\<lparr>uri = ''https://logging.googleapis.com/v2/entries:write'',
                 http_method = ''POST'',
                 body = \<lparr>logName = ''projects/clusterfuzz-tools/logs/client'',
                         resource_type = ''project'',
                         resource_labels = [(''project_id'', ''clusterfuzz-tools'')],
                         entries = [\<lparr>jsonPayload = p, severity = ''ERROR''\<rparr>]\<rparr>\<rparr>]"
    and b: "\<forall>k. k \<notin> {''version'', ''user'', ''sessionId'', ''message''}
              \<longrightarrow> p k = example_params (PStr ''chromium'') k"
    by auto
  from b have "p ''testcaseId'' = Some (PStr ''1234'')"
    by (simp add: example_params_entries)
  with a 0 show ?thesis
    by (auto simp: initial_def)
qed

theorem send_log_envelope_counterexample:
  "fst (send_log example_env (example_params (PStr ''chromium'')) (Some []) initial) = Inr ()
   \<and> severities (snd (send_log example_env (example_params (PStr ''chromium'')) (Some []) initial))
       = [''INFO'']"
  by (simp add: send_log_def format_message_def getitem_def add_metadata_entries
      example_params_entries example_env_def Let_def severities_def post_def structure_of_def
      initial_def)

end
